theory Spec2Isabelle
  imports Complex_Main
begin

section \<open>Strings and regular expressions of the source\<close>

text \<open>
  The protocol is written in TypeScript. Its strings are modelled as \<open>string\<close> (lists of
  8-bit characters), which covers every identifier, URL and git argument made of Latin-1
  code units. In that range the line terminators that the regular-expression atom \<open>.\<close>
  refuses are LF and CR.

  An optional property (\<open>repo?: string\<close>) is an \<open>option\<close>; JavaScript truthiness of an
  optional string is "present and not empty".
\<close>

definition truthy :: "string option \<Rightarrow> bool" where
  "truthy x = (case x of None \<Rightarrow> False | Some s \<Rightarrow> s \<noteq> [])"

definition startsWith :: "string \<Rightarrow> string \<Rightarrow> bool" where
  "startsWith s p = (take (length p) s = p)"

definition endsWith :: "string \<Rightarrow> string \<Rightarrow> bool" where
  "endsWith s p = (length p \<le> length s \<and> drop (length s - length p) s = p)"

fun includes_str :: "string \<Rightarrow> string \<Rightarrow> bool" where
  "includes_str [] p = (p = [])"
| "includes_str (c # cs) p = (startsWith (c # cs) p \<or> includes_str cs p)"

text \<open>\<open>s.split("\n")\<close>: the pieces between the separators; never an empty array.\<close>

fun split :: "char \<Rightarrow> string \<Rightarrow> string list" where
  "split d [] = [[]]"
| "split d (c # cs) =
     (if c = d then [] # split d cs
      else (case split d cs of [] \<Rightarrow> [[c]] | l # ls \<Rightarrow> (c # l) # ls))"

fun tails :: "string \<Rightarrow> string list" where
  "tails [] = [[]]"
| "tails (c # cs) = (c # cs) # tails cs"

subsection \<open>Backtracking matchers\<close>

text \<open>
  A regular expression is matched the way the JavaScript engine does it: every piece
  returns the list of its possible matches on the input, in the order in which the engine
  tries them (a greedy quantifier tries the longest match first), each with the input that
  is left. A sequence of pieces is a list comprehension over these lists, and the match
  of the whole expression is the first element of the result.
\<close>

definition lit :: "string \<Rightarrow> string \<Rightarrow> string list" where
  "lit s inp = (if take (length s) inp = s then [drop (length s) inp] else [])"

text \<open>One character of a class.\<close>

fun one_class :: "(char \<Rightarrow> bool) \<Rightarrow> string \<Rightarrow> string list" where
  "one_class P [] = []"
| "one_class P (c # cs) = (if P c then [cs] else [])"

text \<open>\<open>[class]+\<close>, greedy: the captured text and the rest, longest capture first.\<close>

fun plus_class :: "(char \<Rightarrow> bool) \<Rightarrow> string \<Rightarrow> (string \<times> string) list" where
  "plus_class P [] = []"
| "plus_class P (c # cs) =
     (if P c then map (\<lambda>(m, r). (c # m, r)) (plus_class P cs) @ [([c], cs)] else [])"

definition first_match :: "'a list \<Rightarrow> 'a option" where
  "first_match rs = (case rs of [] \<Rightarrow> None | r # _ \<Rightarrow> Some r)"

definition not_colon :: "char \<Rightarrow> bool" where
  "not_colon c = (c \<noteq> CHR '':'')"

definition not_slash :: "char \<Rightarrow> bool" where
  "not_slash c = (c \<noteq> CHR ''/'')"

text \<open>The atom \<open>.\<close> (without the \<open>s\<close> flag): any character but a line terminator.\<close>

definition dot :: "char \<Rightarrow> bool" where
  "dot c = (c \<noteq> CHR 0x0A \<and> c \<noteq> CHR 0x0D)"

section \<open>The data of the protocol\<close>

text \<open>\<open>Attrs\<close> of git/main.ts: the per-plugin overrides under \<open>protocolAttrs\<close>.\<close>

record attrs =
  gitDefaultBranch :: "string option"
  gitRemote :: "string option"

text \<open>
  \<open>Plugin\<close> of dpp.vim, with the properties this protocol reads or writes, all optional
  (so the record is \<open>Partial<Plugin>\<close> as well). The last two fields are the
  \<open>__gitDefaultBranch\<close> and \<open>__gitRemote\<close> that \<open>GitPlugin\<close> of git.ts adds.
\<close>

record plugin =
  repo :: "string option"
  path :: "string option"
  rev :: "string option"
  local :: "bool option"
  frozen :: "bool option"
  url :: "string option"
  protocolAttrs :: "attrs option"
  dunder_gitDefaultBranch :: "string option"
  dunder_gitRemote :: "string option"

definition no_plugin :: plugin where
  "no_plugin = \<lparr>repo = None, path = None, rev = None, local = None, frozen = None,
     url = None, protocolAttrs = None, dunder_gitDefaultBranch = None,
     dunder_gitRemote = None\<rparr>"

text \<open>
  A JavaScript \<open>number\<close>: not-a-number, the two infinities, or a finite value. Every
  double is one of these (\<open>-0\<close> is \<open>Finite 0\<close>: it is falsy, compares like \<open>0\<close> and prints
  as \<open>0\<close>). The protocol only tests a number for truthiness, compares it with \<open>0\<close> and
  prints it.
\<close>

datatype number = NaN | PosInfinity | NegInfinity | Finite real

text \<open>Truthiness of a number: every number but \<open>0\<close> and \<open>NaN\<close>.\<close>

definition truthy_number :: "number \<Rightarrow> bool" where
  "truthy_number d =
     (case d of NaN \<Rightarrow> False | PosInfinity \<Rightarrow> True | NegInfinity \<Rightarrow> True
      | Finite x \<Rightarrow> x \<noteq> 0)"

text \<open>\<open>depth <= 0\<close> and \<open>depth > 0\<close>; a comparison with \<open>NaN\<close> is false.\<close>

definition le_zero :: "number \<Rightarrow> bool" where
  "le_zero d =
     (case d of NaN \<Rightarrow> False | PosInfinity \<Rightarrow> False | NegInfinity \<Rightarrow> True
      | Finite x \<Rightarrow> x \<le> 0)"

definition gt_zero :: "number \<Rightarrow> bool" where
  "gt_zero d =
     (case d of NaN \<Rightarrow> False | PosInfinity \<Rightarrow> True | NegInfinity \<Rightarrow> False
      | Finite x \<Rightarrow> 0 < x)"

text \<open>
  \<open>Params\<close>. git.ts calls \<open>enablePartialClone\<close> \<open>partialClone\<close> and has neither
  \<open>enableCredentialHelper\<close> nor \<open>enableSSLVerify\<close>.
\<close>

record params =
  cloneDepth :: number
  commandPath :: string
  defaultBranch :: string
  defaultHubSite :: string
  defaultProtocol :: string
  defaultRemote :: string
  enableCredentialHelper :: bool
  enablePartialClone :: bool
  enableSSLVerify :: bool
  pullArgs :: "string list"

record command =
  command :: string
  args :: "string list"

section \<open>Identifier parsing and URL building (git/main.ts)\<close>

text \<open>\<open>/^git@(?<host>[^:]+):(?<user>[^\/]+)\/(?<name>.+)/\<close>\<close>

definition sshMatch :: "string \<Rightarrow> (string \<times> string \<times> string) option" where
  "sshMatch s = first_match
     [(h, u, n).
        r1 \<leftarrow> lit ''git@'' s, (h, r2) \<leftarrow> plus_class not_colon r1, r3 \<leftarrow> lit '':'' r2,
        (u, r4) \<leftarrow> plus_class not_slash r3, r5 \<leftarrow> lit ''/'' r4,
        (n, r6) \<leftarrow> plus_class dot r5]"

text \<open>\<open>/^(?<protocol>[^:]+):\/\/(?<host>[^\/]+)\/(?<user>[^\/]+)\/(?<name>.+)/\<close>\<close>

definition protocolMatch :: "string \<Rightarrow> (string \<times> string \<times> string \<times> string) option" where
  "protocolMatch s = first_match
     [(p, h, u, n).
        (p, r1) \<leftarrow> plus_class not_colon s, r2 \<leftarrow> lit ''://'' r1,
        (h, r3) \<leftarrow> plus_class not_slash r2, r4 \<leftarrow> lit ''/'' r3,
        (u, r5) \<leftarrow> plus_class not_slash r4, r6 \<leftarrow> lit ''/'' r5,
        (n, r7) \<leftarrow> plus_class dot r6]"

text \<open>
  \<open>/^((?<host>[^\/]+)\/)?(?<user>[^\/]+)\/(?<name>.+)/\<close>: the optional group is greedy,
  so the engine first tries to match with it and only then without it; a group that does
  not take part in the match is \<open>undefined\<close> (\<open>None\<close>).
\<close>

definition opt_host :: "string \<Rightarrow> (string option \<times> string) list" where
  "opt_host s =
     [(Some h, r2). (h, r1) \<leftarrow> plus_class not_slash s, r2 \<leftarrow> lit ''/'' r1] @ [(None, s)]"

definition hostMatch :: "string \<Rightarrow> (string option \<times> string \<times> string) option" where
  "hostMatch s = first_match
     [(ho, u, n).
        (ho, r1) \<leftarrow> opt_host s,
        (u, r2) \<leftarrow> plus_class not_slash r1, r3 \<leftarrow> lit ''/'' r2,
        (n, r4) \<leftarrow> plus_class dot r3]"

text \<open>The four variables \<open>protocol\<close>, \<open>host\<close>, \<open>user\<close>, \<open>name\<close> of \<open>getGitUrl\<close>.\<close>

record parsed =
  protocol :: string
  host :: string
  user :: string
  name :: string

text \<open>
  The first half of \<open>getGitUrl\<close>: the defaults, then the first of the three grammars that
  matches overwrites them. \<open>if (hostMatch.groups.host)\<close> is a truthiness test.
\<close>

definition parseIdentifier :: "string \<Rightarrow> string \<Rightarrow> string \<Rightarrow> parsed" where
  "parseIdentifier r hubSite proto =
     (case sshMatch r of
        Some (h, u, n) \<Rightarrow> \<lparr>protocol = ''ssh'', host = h, user = u, name = n\<rparr>
      | None \<Rightarrow>
     (case protocolMatch r of
        Some (p, h, u, n) \<Rightarrow> \<lparr>protocol = p, host = h, user = u, name = n\<rparr>
      | None \<Rightarrow>
     (case hostMatch r of
        Some (ho, u, n) \<Rightarrow>
          \<lparr>protocol = proto,
           host = (case ho of None \<Rightarrow> hubSite | Some h \<Rightarrow> if h = [] then hubSite else h),
           user = u, name = n\<rparr>
      | None \<Rightarrow> \<lparr>protocol = proto, host = hubSite, user = [], name = []\<rparr>)))"

text \<open>The second half: the two validity checks, the URL and the suffix policy.\<close>

definition buildUrl :: "parsed \<Rightarrow> string" where
  "buildUrl p =
     (if user p = [] \<or> name p = [] then []
      else if protocol p \<noteq> ''https'' \<and> protocol p \<noteq> ''ssh'' then []
      else
        let u = (if protocol p = ''ssh''
                 then ''git@'' @ host p @ '':'' @ user p @ ''/'' @ name p
                 else protocol p @ ''://'' @ host p @ ''/'' @ user p @ ''/'' @ name p)
        in if host p = ''git.sr.ht'' \<or> endsWith u ''.git'' then u else u @ ''.git'')"

definition getGitUrl :: "plugin \<Rightarrow> string \<Rightarrow> string \<Rightarrow> string" where
  "getGitUrl plugin hubSite proto =
     (case repo plugin of
        None \<Rightarrow> []
      | Some r \<Rightarrow>
          if r = [] \<or> CHR ''/'' \<notin> set r then []
          else buildUrl (parseIdentifier r hubSite proto))"


section \<open>The host and the file system\<close>

text \<open>
  What the protocol asks of its surroundings, as one record: \<open>isAbsolute\<close> of the
  standard library, \<open>isDirectory\<close> and \<open>safeStat\<close> of dpp.vim, the Vim function
  \<open>dpp#util#_expand\<close>, the Vim variable \<open>g:dpp#_base_path\<close>, \<open>Deno.cwd()\<close>,
  \<open>Deno.readTextFile\<close> (\<open>None\<close>: it rejects) and the decoded standard output of
  \<open>new Deno.Command(command, {args, cwd}).output()\<close> (\<open>None\<close>: the process cannot be
  spawned and the call rejects). \<open>formatNumber\<close> is how the language prints a finite
  number that is not an integer of at most \<open>2^53\<close> in size (a fraction, an exponent, or
  the rounded digits of a large integer).
\<close>

record env =
  isAbsolute :: "string \<Rightarrow> bool"
  isDirectory :: "string \<Rightarrow> bool"
  safeStat :: "string \<Rightarrow> bool"
  expand :: "string \<Rightarrow> string"
  base_path :: string
  cwd :: string
  readTextFile :: "string \<Rightarrow> string option"
  commandOutput :: "string \<Rightarrow> string list \<Rightarrow> string \<Rightarrow> string option"
  formatNumber :: "real \<Rightarrow> string"

datatype error = SpawnFailed | ReadFailed | TypeError

text \<open>
  A method that can reach the host's error sink returns its value together with the
  messages it passed to \<open>dpp#util#_error\<close>, in order.
\<close>

type_synonym 'a reported = "'a \<times> string list"

section \<open>git/main.ts\<close>

subsection \<open>detect\<close>

text \<open>\<open>/\/\/(raw|gist)\.githubusercontent\.com\/|\/archive\/[^\/]+.zip$/\<close>, searched at
  every position of the identifier; the \<open>.\<close> before \<open>zip\<close> is not escaped.\<close>

definition raw_host :: "string \<Rightarrow> string list" where
  "raw_host t =
     [r3. r1 \<leftarrow> lit ''//'' t, r2 \<leftarrow> lit ''raw'' r1 @ lit ''gist'' r1,
          r3 \<leftarrow> lit ''.githubusercontent.com/'' r2]"

definition archive_zip :: "string \<Rightarrow> string list" where
  "archive_zip t =
     [r4. r1 \<leftarrow> lit ''/archive/'' t, (m, r2) \<leftarrow> plus_class not_slash r1,
          r3 \<leftarrow> one_class dot r2, r4 \<leftarrow> lit ''zip'' r3, r4 = []]"

definition rawMatch :: "string \<Rightarrow> bool" where
  "rawMatch s = list_ex (\<lambda>t. raw_host t \<noteq> [] \<or> archive_zip t \<noteq> []) (tails s)"

text \<open>\<open>.replace(/\.git$/, "")\<close>\<close>

definition strip_git :: "string \<Rightarrow> string" where
  "strip_git u = (if endsWith u ''.git'' then take (length u - 4) u else u)"

text \<open>
  \<open>.replace(/https:\/+|^git@/g, "")\<close>: every \<open>https:\<close> with the slashes after it is
  removed, wherever it stands, and \<open>git@\<close> at the very start; the search goes on behind
  each match. The flag says whether the position is the start of the input.
\<close>

function remove_schemes :: "bool \<Rightarrow> string \<Rightarrow> string" where
  "remove_schemes start [] = []"
| "remove_schemes start (c # cs) =
     (if startsWith (c # cs) ''https:/''
      then remove_schemes False (dropWhile (\<lambda>x. x = CHR ''/'') (drop 6 (c # cs)))
      else if start \<and> startsWith (c # cs) ''git@''
      then remove_schemes False (drop 4 (c # cs))
      else c # remove_schemes False cs)"
  by pat_completeness auto
termination
  by (relation "measure (\<lambda>(b, s). length s)")
     (auto simp: startsWith_def intro: le_less_trans [OF length_dropWhile_le])

text \<open>\<open>.replace(/:/, "/")\<close>: the first colon only.\<close>

definition colon_to_slash :: "string \<Rightarrow> string" where
  "colon_to_slash s =
     takeWhile not_colon s @
     (case dropWhile not_colon s of [] \<Rightarrow> [] | c # r \<Rightarrow> CHR ''/'' # r)"

definition directory :: "string \<Rightarrow> string" where
  "directory u = colon_to_slash (remove_schemes True (strip_git u))"

text \<open>\<open>.replace(/^git@github.com:/, "https://github.com/")\<close> and
  \<open>.replace(/^git@git.sr.ht:/, "https://git.sr.ht")\<close>, with their unescaped dots.\<close>

definition github_web :: "string \<Rightarrow> string" where
  "github_web u =
     (case first_match
        [r3. r1 \<leftarrow> lit ''git@github'' u, r2 \<leftarrow> one_class dot r1, r3 \<leftarrow> lit ''com:'' r2] of
        None \<Rightarrow> u
      | Some r \<Rightarrow> ''https://github.com/'' @ r)"

definition srht_web :: "string \<Rightarrow> string" where
  "srht_web u =
     (case first_match
        [r5. r1 \<leftarrow> lit ''git@git'' u, r2 \<leftarrow> one_class dot r1, r3 \<leftarrow> lit ''sr'' r2,
             r4 \<leftarrow> one_class dot r3, r5 \<leftarrow> lit ''ht:'' r4] of
        None \<Rightarrow> u
      | Some r \<Rightarrow> ''https://git.sr.ht'' @ r)"

definition browseUrl :: "string \<Rightarrow> string" where
  "browseUrl u = strip_git (srht_web (github_web u))"

text \<open>\<open>getUrl\<close> hands the plugin and two parameters to \<open>getGitUrl\<close> and calls nothing else:
  no message reaches the error sink.\<close>

definition getUrl :: "params \<Rightarrow> plugin \<Rightarrow> string reported" where
  "getUrl ps pl = (getGitUrl pl (defaultHubSite ps) (defaultProtocol ps), [])"

text \<open>The part of \<open>detect\<close> after the test for a local directory.\<close>

definition detect_remote :: "env \<Rightarrow> params \<Rightarrow> plugin \<Rightarrow> plugin option reported" where
  "detect_remote e ps pl =
     (case getUrl ps pl of (u, errs) \<Rightarrow>
        if length u = 0 then (None, errs)
        else (Some (no_plugin\<lparr>path := Some (base_path e @ ''/repos/'' @ directory u),
                               url := Some (browseUrl u)\<rparr>), errs))"

definition detect :: "env \<Rightarrow> params \<Rightarrow> plugin \<Rightarrow> plugin option reported" where
  "detect e ps pl =
     (case repo pl of
        None \<Rightarrow> (None, [])
      | Some r \<Rightarrow>
          if r = [] then (None, [])
          else if rawMatch r then (None, [])
          else if isAbsolute e r \<or> startsWith r ''~'' then
            (if local pl = Some True then (None, [])
             else if isDirectory e (expand e r)
             then (Some (no_plugin\<lparr>local := Some True, path := Some (expand e r)\<rparr>), [])
             else detect_remote e ps pl)
          else detect_remote e ps pl)"


subsection \<open>The command planner\<close>

definition digit_char :: "nat \<Rightarrow> char" where
  "digit_char d =
     (if d = 0 then CHR ''0'' else if d = 1 then CHR ''1'' else if d = 2 then CHR ''2''
      else if d = 3 then CHR ''3'' else if d = 4 then CHR ''4'' else if d = 5 then CHR ''5''
      else if d = 6 then CHR ''6'' else if d = 7 then CHR ''7'' else if d = 8 then CHR ''8''
      else CHR ''9'')"

text \<open>The decimal digits of a natural number.\<close>

fun decimal :: "nat \<Rightarrow> string" where
  "decimal n =
     (if n < 10 then [digit_char n] else decimal (n div 10) @ [digit_char (n mod 10)])"

declare decimal.simps [simp del]

text \<open>
  \<open>`${depth}`\<close>, the language's conversion of a number to a string: the names of the
  three values that are not finite; the decimal digits, with the sign, of an integer
  that every double below \<open>2^53\<close> represents exactly; and \<open>formatNumber\<close> for the rest.
\<close>

definition numberToString :: "env \<Rightarrow> number \<Rightarrow> string" where
  "numberToString e d =
     (case d of
        NaN \<Rightarrow> ''NaN''
      | PosInfinity \<Rightarrow> ''Infinity''
      | NegInfinity \<Rightarrow> ''-Infinity''
      | Finite x \<Rightarrow>
          if x = of_int \<lfloor>x\<rfloor> \<and> \<bar>x\<bar> \<le> 2 ^ 53
          then (if x < 0 then ''-'' else []) @ decimal (nat \<bar>\<lfloor>x\<rfloor>\<bar>)
          else formatNumber e x)"

definition credentialHelper :: "params \<Rightarrow> string list" where
  "credentialHelper ps =
     (if enableCredentialHelper ps then []
      else [''-c'', ''credential.helper='', ''-c'', ''core.fsmonitor=false''])"

definition sslVerify :: "params \<Rightarrow> string list" where
  "sslVerify ps = (if enableSSLVerify ps then [] else [''-c'', ''http.sslVerify=false''])"

definition initArgs :: "params \<Rightarrow> string list" where
  "initArgs ps = credentialHelper ps @ sslVerify ps"

text \<open>\<open>attrs?.gitRemote ?? defaultRemote\<close>: only a missing value falls back.\<close>

definition remoteName :: "params \<Rightarrow> plugin \<Rightarrow> string" where
  "remoteName ps pl =
     (case protocolAttrs pl of
        None \<Rightarrow> defaultRemote ps
      | Some a \<Rightarrow> (case gitRemote a of None \<Rightarrow> defaultRemote ps | Some g \<Rightarrow> g))"

definition remoteArgs :: "params \<Rightarrow> plugin \<Rightarrow> string list" where
  "remoteArgs ps pl = [''remote'', ''set-head'', remoteName ps pl, ''-a'']"

definition submoduleArgs :: "string list" where
  "submoduleArgs = [''submodule'', ''update'', ''--init'', ''--recursive'']"

text \<open>The branch of \<open>getSyncCommands\<close> for a path that is a directory.\<close>

definition updateCommands :: "params \<Rightarrow> plugin \<Rightarrow> command list" where
  "updateCommands ps pl =
     [\<lparr>command = commandPath ps, args = initArgs ps @ [''fetch'']\<rparr>] @
     (if \<not> truthy_number (cloneDepth ps) \<and> le_zero (cloneDepth ps)
      then [\<lparr>command = commandPath ps, args = remoteArgs ps pl\<rparr>] else []) @
     [\<lparr>command = commandPath ps, args = pullArgs ps\<rparr>] @
     [\<lparr>command = commandPath ps, args = submoduleArgs\<rparr>]"

text \<open>The other branch: the argument vector of the clone, built by successive pushes.\<close>

definition cloneArgs :: "env \<Rightarrow> params \<Rightarrow> plugin \<Rightarrow> string \<Rightarrow> string \<Rightarrow> string list" where
  "cloneArgs e ps pl u p =
     (let a0 = initArgs ps @ [''clone'', ''--recursive''];
          a1 = (if enablePartialClone ps then a0 @ [''--filter=blob:none''] else a0);
          a2 = (if truthy_number (cloneDepth ps) \<and> gt_zero (cloneDepth ps)
                then (let b = a1 @ [''--depth='' @ numberToString e (cloneDepth ps)]
                      in (case rev pl of
                            None \<Rightarrow> b
                          | Some v \<Rightarrow> if length v > 0 then b @ [''--branch'', v] else b))
                else a1)
      in a2 @ [u, p])"

definition getSyncCommands :: "env \<Rightarrow> params \<Rightarrow> plugin \<Rightarrow> command list reported" where
  "getSyncCommands e ps pl =
     (if \<not> truthy (repo pl) \<or> \<not> truthy (path pl) then ([], [])
      else
        (case path pl of
           None \<Rightarrow> ([], [])
         | Some p \<Rightarrow>
             if isDirectory e p then (updateCommands ps pl, [])
             else (case getUrl ps pl of (u, errs) \<Rightarrow>
                     ([\<lparr>command = commandPath ps, args = cloneArgs e ps pl u p\<rparr>], errs))))"

definition getRollbackCommands :: "params \<Rightarrow> plugin \<Rightarrow> string \<Rightarrow> command list" where
  "getRollbackCommands ps pl v =
     (if \<not> truthy (repo pl) \<or> \<not> truthy (path pl) then []
      else [\<lparr>command = commandPath ps, args = [''reset'', ''--hard'', v]\<rparr>])"

definition getDiffCommands :: "params \<Rightarrow> plugin \<Rightarrow> string \<Rightarrow> string \<Rightarrow> command list" where
  "getDiffCommands ps pl newRev oldRev =
     (if \<not> truthy (repo pl) \<or> \<not> truthy (path pl) then []
      else [\<lparr>command = commandPath ps,
             args = [''diff'', oldRev @ ''..'' @ newRev, ''--'', ''doc'', ''README'',
                     ''README.md'']\<rparr>])"

text \<open>\<open>cwd: await isDirectory(args.plugin.path ?? "") ? args.plugin.path : Deno.cwd()\<close>.
  Where it is used the guard has already returned for a missing path.\<close>

definition workDir :: "env \<Rightarrow> plugin \<Rightarrow> string" where
  "workDir e pl =
     (case path pl of
        None \<Rightarrow> cwd e
      | Some p \<Rightarrow> if isDirectory e p then p else cwd e)"

definition getLogCommands ::
  "env \<Rightarrow> params \<Rightarrow> plugin \<Rightarrow> string \<Rightarrow> string \<Rightarrow> error + command list" where
  \<open>getLogCommands e ps pl newRev oldRev =
     (if \<not> truthy (repo pl) \<or> \<not> truthy (path pl) \<or> length newRev = 0 \<or> length oldRev = 0
      then Inr []
      else
        (case commandOutput e (commandPath ps) [''merge-base'', oldRev, newRev]
                (workDir e pl) of
           None \<Rightarrow> Inl SpawnFailed
         | Some stdout \<Rightarrow>
             let isNotAncestor = (stdout = oldRev)
             in Inr [\<lparr>command = commandPath ps,
                      args = [''log'',
                              oldRev @ (if isNotAncestor then [] else ''^'') @ ''..'' @ newRev,
                              ''--graph'', ''--no-show-signature'',
                              ''--pretty=format:"%h [%cr] %s"'']\<rparr>]))\<close>

text \<open>\<open>lines.length > 0 ? lines[0] : ""\<close> on the output split at the line feeds.\<close>

definition firstLine :: "string \<Rightarrow> string" where
  "firstLine out = (case split CHR 0x0A out of [] \<Rightarrow> [] | l # ls \<Rightarrow> l)"

text \<open>The first stage of \<open>getRevisionLockCommands\<close>: a revision with a \<open>*\<close> is replaced
  by the first tag that \<open>git tag <rev> --list --sort -version:refname\<close> prints.\<close>

definition releasedTag :: "env \<Rightarrow> params \<Rightarrow> plugin \<Rightarrow> error + string" where
  "releasedTag e ps pl =
     (let v = (case rev pl of None \<Rightarrow> [] | Some v \<Rightarrow> v)
      in if v \<noteq> [] \<and> CHR ''*'' \<in> set v
         then (case commandOutput e (commandPath ps)
                      [''tag'', v, ''--list'', ''--sort'', ''-version:refname'']
                      (workDir e pl) of
                 None \<Rightarrow> Inl SpawnFailed
               | Some stdout \<Rightarrow> Inr (firstLine stdout))
         else Inr v)"

text \<open>\<open>attrs?.gitDefaultBranch ?? args.protocolParams.defaultBranch\<close>\<close>

definition branchName :: "params \<Rightarrow> plugin \<Rightarrow> string" where
  "branchName ps pl =
     (case protocolAttrs pl of
        None \<Rightarrow> defaultBranch ps
      | Some a \<Rightarrow> (case gitDefaultBranch a of None \<Rightarrow> defaultBranch ps | Some b \<Rightarrow> b))"

text \<open>The second stage: an empty revision is replaced by the current symbolic ref, or by
  the default branch when the output has \<open>fatal: \<close> in its first line.\<close>

definition symbolicRef :: "env \<Rightarrow> params \<Rightarrow> plugin \<Rightarrow> string \<Rightarrow> error + string" where
  "symbolicRef e ps pl v =
     (if length v = 0
      then (case commandOutput e (commandPath ps) [''symbolic-ref'', ''--short'', ''HEAD'']
                   (workDir e pl) of
              None \<Rightarrow> Inl SpawnFailed
            | Some stdout \<Rightarrow>
                let l = firstLine stdout
                in if includes_str l ''fatal: '' then Inr (branchName ps pl) else Inr l)
      else Inr v)"

definition getRevisionLockCommands :: "env \<Rightarrow> params \<Rightarrow> plugin \<Rightarrow> error + command list" where
  "getRevisionLockCommands e ps pl =
     (if \<not> truthy (repo pl) \<or> \<not> truthy (path pl) then Inr []
      else
        (case releasedTag e ps pl of
           Inl x \<Rightarrow> Inl x
         | Inr v1 \<Rightarrow>
        (case symbolicRef e ps pl v1 of
           Inl x \<Rightarrow> Inl x
         | Inr v2 \<Rightarrow>
             Inr [\<lparr>command = commandPath ps,
                   args = [''checkout'', ''--quiet'', ''--guess'', v2, ''--'']\<rparr>])))"

definition getChangesCountCommands ::
  "params \<Rightarrow> plugin \<Rightarrow> string \<Rightarrow> string \<Rightarrow> command list" where
  "getChangesCountCommands ps pl newRev oldRev =
     (if \<not> truthy (repo pl) \<or> \<not> truthy (path pl) then []
      else [\<lparr>command = commandPath ps,
             args = [''rev-list'', ''--count'', oldRev @ ''..'' @ newRev]\<rparr>])"

subsection \<open>getRevision\<close>

definition getGitDir :: "env \<Rightarrow> string \<Rightarrow> string" where
  "getGitDir e base = (if isDirectory e (base @ ''/.git'') then base @ ''/.git'' else [])"

definition is_hex :: "char \<Rightarrow> bool" where
  "is_hex c = (c \<in> set ''0123456789abcdef'')"

text \<open>\<open>line.replace(/^([0-9a-f]*) /, "$1")\<close>: the blank after the leading hexadecimal
  digits is dropped, if there is one.\<close>

definition drop_hash_blank :: "string \<Rightarrow> string" where
  "drop_hash_blank l =
     (case dropWhile is_hex l of
        [] \<Rightarrow> l
      | c # r \<Rightarrow> if c = CHR '' '' then takeWhile is_hex l @ r else l)"

text \<open>\<open>text.split("\n")[0]\<close>; reading index 0 of an empty array would give \<open>undefined\<close>,
  and the method call on it a \<open>TypeError\<close>.\<close>

definition line0 :: "string \<Rightarrow> error + string" where
  "line0 t = (case split CHR 0x0A t of [] \<Rightarrow> Inl TypeError | l # ls \<Rightarrow> Inr l)"

text \<open>The loop over the matching lines of \<open>packed-refs\<close> returns in its first round.\<close>

definition packedRef :: "env \<Rightarrow> string \<Rightarrow> string \<Rightarrow> string \<Rightarrow> error + string" where
  "packedRef e gitDir ref headFileLine =
     (case readTextFile e (gitDir @ ''/packed-refs'') of
        None \<Rightarrow> Inl ReadFailed
      | Some t \<Rightarrow>
          (case filter (\<lambda>l. includes_str l ('' '' @ ref)) (split CHR 0x0A t) of
             [] \<Rightarrow> Inr headFileLine
           | l # ls \<Rightarrow> Inr (drop_hash_blank l)))"

definition readRef :: "env \<Rightarrow> string \<Rightarrow> string \<Rightarrow> error + string" where
  "readRef e gitDir headFileLine =
     (if startsWith headFileLine ''ref: ''
      then (let ref = drop 5 headFileLine
            in if safeStat e (gitDir @ ''/'' @ ref)
               then (case readTextFile e (gitDir @ ''/'' @ ref) of
                       None \<Rightarrow> Inl ReadFailed
                     | Some t \<Rightarrow> line0 t)
               else packedRef e gitDir ref headFileLine)
      else Inr headFileLine)"

definition getRevision :: "env \<Rightarrow> plugin \<Rightarrow> error + string" where
  "getRevision e pl =
     (if \<not> truthy (repo pl) \<or> \<not> truthy (path pl) then Inr []
      else
        (case path pl of
           None \<Rightarrow> Inr []
         | Some p \<Rightarrow>
             let gitDir = getGitDir e p
             in if length gitDir = 0 then Inr []
                else (case readTextFile e (gitDir @ ''/HEAD'') of
                        None \<Rightarrow> Inl ReadFailed
                      | Some t \<Rightarrow>
                          (case line0 t of
                             Inl x \<Rightarrow> Inl x
                           | Inr headFileLine \<Rightarrow> readRef e gitDir headFileLine))))"

text \<open>\<open>params()\<close>: the defaults.\<close>

definition default_params :: params where
  "default_params =
     \<lparr>cloneDepth = Finite 0, commandPath = ''git'', defaultBranch = ''main'',
      defaultHubSite = ''github.com'', defaultProtocol = ''https'',
      defaultRemote = ''origin'', enableCredentialHelper = False,
      enablePartialClone = False, enableSSLVerify = True,
      pullArgs = [''pull'', ''--ff'', ''--ff-only'']\<rparr>"


section \<open>git.ts, the earlier variant\<close>

text \<open>
  Of git.ts the three methods that differ from git/main.ts in what the statements below
  are about: \<open>getUrl\<close>, \<open>detect\<close> and \<open>getSyncCommands\<close>. Its parameter \<open>partialClone\<close>
  is the field \<open>enablePartialClone\<close>. Here \<open>getUrl\<close> parses the identifier itself, with
  two grammars only, and calls \<open>dpp#util#_error\<close> on a protocol it does not accept. (The
  repository holds a third, still older copy of the file, without \<open>cloneDepth\<close>; nothing
  below is about it.)
\<close>

text \<open>\<open>/^git@(?<host>[^:]+):(?<name>.+)/\<close>\<close>

definition git_ts_sshMatch :: "string \<Rightarrow> (string \<times> string) option" where
  "git_ts_sshMatch s = first_match
     [(h, n).
        r1 \<leftarrow> lit ''git@'' s, (h, r2) \<leftarrow> plus_class not_colon r1, r3 \<leftarrow> lit '':'' r2,
        (n, r4) \<leftarrow> plus_class dot r3]"

text \<open>\<open>/^(?<protocol>[^:]+):\/\/(?<host>[^\/]+)\/(?<name>.+)/\<close>\<close>

definition git_ts_protocolMatch :: "string \<Rightarrow> (string \<times> string \<times> string) option" where
  "git_ts_protocolMatch s = first_match
     [(p, h, n).
        (p, r1) \<leftarrow> plus_class not_colon s, r2 \<leftarrow> lit ''://'' r1,
        (h, r3) \<leftarrow> plus_class not_slash r2, r4 \<leftarrow> lit ''/'' r3,
        (n, r5) \<leftarrow> plus_class dot r4]"

text \<open>The variables \<open>protocol\<close>, \<open>host\<close> and \<open>name\<close> of \<open>getUrl\<close>; there is no \<open>user\<close>.\<close>

definition git_ts_parse :: "string \<Rightarrow> string \<Rightarrow> string \<Rightarrow> string \<times> string \<times> string" where
  "git_ts_parse r hubSite proto =
     (case git_ts_sshMatch r of
        Some (h, n) \<Rightarrow> (''ssh'', h, n)
      | None \<Rightarrow>
     (case git_ts_protocolMatch r of
        Some (p, h, n) \<Rightarrow> (p, h, n)
      | None \<Rightarrow> (proto, hubSite, r)))"

definition git_ts_getUrl :: "params \<Rightarrow> plugin \<Rightarrow> string reported" where
  \<open>git_ts_getUrl ps pl =
     (case repo pl of
        None \<Rightarrow> ([], [])
      | Some r \<Rightarrow>
          if r = [] \<or> CHR ''/'' \<notin> set r then ([], [])
          else
            (case git_ts_parse r (defaultHubSite ps) (defaultProtocol ps) of
               (p, h, n) \<Rightarrow>
                 if p \<noteq> ''https'' \<and> p \<noteq> ''ssh''
                 then ([], [''Invalid git protocol: "'' @ p @ ''"''])
                 else if p = ''ssh'' then (''git@'' @ h @ '':'' @ n, [])
                 else (p @ ''://'' @ h @ ''/'' @ n, [])))\<close>

text \<open>\<open>.replace(/^https:\/+|^git@/, "")\<close>: at the start only, and once.\<close>

definition git_ts_remove_scheme :: "string \<Rightarrow> string" where
  "git_ts_remove_scheme s =
     (if startsWith s ''https:/'' then dropWhile (\<lambda>x. x = CHR ''/'') (drop 6 s)
      else if startsWith s ''git@'' then drop 4 s
      else s)"

definition git_ts_directory :: "string \<Rightarrow> string" where
  "git_ts_directory u = colon_to_slash (git_ts_remove_scheme (strip_git u))"

definition git_ts_detect_remote :: "env \<Rightarrow> params \<Rightarrow> plugin \<Rightarrow> plugin option reported" where
  "git_ts_detect_remote e ps pl =
     (case git_ts_getUrl ps pl of (u, errs) \<Rightarrow>
        if length u = 0 then (None, errs)
        else (Some (no_plugin\<lparr>path := Some (base_path e @ ''/repos/'' @ git_ts_directory u)\<rparr>),
              errs))"

definition git_ts_detect :: "env \<Rightarrow> params \<Rightarrow> plugin \<Rightarrow> plugin option reported" where
  "git_ts_detect e ps pl =
     (case repo pl of
        None \<Rightarrow> (None, [])
      | Some r \<Rightarrow>
          if r = [] then (None, [])
          else if rawMatch r then (None, [])
          else if isAbsolute e r \<or> startsWith r ''~'' then
            (if local pl = Some True then (None, [])
             else if isDirectory e (expand e r)
             then (Some (no_plugin\<lparr>frozen := Some True, local := Some True,
                                    path := Some (expand e r)\<rparr>), [])
             else git_ts_detect_remote e ps pl)
          else git_ts_detect_remote e ps pl)"

text \<open>\<open>args.plugin.__gitRemote ?? args.protocolParams.defaultRemote\<close>\<close>

definition git_ts_remoteName :: "params \<Rightarrow> plugin \<Rightarrow> string" where
  "git_ts_remoteName ps pl =
     (case dunder_gitRemote pl of None \<Rightarrow> defaultRemote ps | Some g \<Rightarrow> g)"

definition git_ts_updateCommands :: "params \<Rightarrow> plugin \<Rightarrow> command list" where
  "git_ts_updateCommands ps pl =
     [\<lparr>command = commandPath ps, args = [''-c'', ''credential.helper='', ''fetch'']\<rparr>] @
     (if \<not> truthy_number (cloneDepth ps) \<and> le_zero (cloneDepth ps)
      then [\<lparr>command = commandPath ps,
              args = [''remote'', ''set-head'', git_ts_remoteName ps pl, ''-a'']\<rparr>]
      else []) @
     [\<lparr>command = commandPath ps, args = pullArgs ps\<rparr>] @
     [\<lparr>command = commandPath ps, args = submoduleArgs\<rparr>]"

definition git_ts_cloneArgs ::
  "env \<Rightarrow> params \<Rightarrow> plugin \<Rightarrow> string \<Rightarrow> string \<Rightarrow> string list" where
  "git_ts_cloneArgs e ps pl u p =
     (let a0 = [''-c'', ''credential.helper='', ''clone'', ''--recursive''];
          a1 = (if enablePartialClone ps then a0 @ [''--filter=blob:none''] else a0);
          a2 = (if truthy_number (cloneDepth ps) \<and> gt_zero (cloneDepth ps)
                then (let b = a1 @ [''--depth='' @ numberToString e (cloneDepth ps)]
                      in (case rev pl of
                            None \<Rightarrow> b
                          | Some v \<Rightarrow> if length v > 0 then b @ [''--branch'', v] else b))
                else a1)
      in a2 @ [u, p])"

definition git_ts_getSyncCommands :: "env \<Rightarrow> params \<Rightarrow> plugin \<Rightarrow> command list reported" where
  "git_ts_getSyncCommands e ps pl =
     (if \<not> truthy (repo pl) \<or> \<not> truthy (path pl) then ([], [])
      else
        (case path pl of
           None \<Rightarrow> ([], [])
         | Some p \<Rightarrow>
             if isDirectory e p then (git_ts_updateCommands ps pl, [])
             else (case git_ts_getUrl ps pl of (u, errs) \<Rightarrow>
                     ([\<lparr>command = commandPath ps, args = git_ts_cloneArgs e ps pl u p\<rparr>],
                      errs))))"


section \<open>Notions used to state the properties\<close>

text \<open>
  The matchers above backtrack, but in the expressions of this protocol every \<open>[^c]+\<close>
  is followed by the character \<open>c\<close> itself and every \<open>.+\<close> ends the expression, so each
  piece can match in one way only. \<open>seg P s\<close> is that way for \<open>[^c]+c\<close>: the longest
  prefix of \<open>s\<close> in the class \<open>P\<close>, which must not be empty and must be followed by a
  character (the \<open>c\<close>), and what is left behind that character. \<open>rest_line s\<close> is the
  way for a final \<open>.+\<close>: the prefix of \<open>s\<close> up to the first line terminator, which must
  not be empty. The lemmas below prove that the matchers compute exactly these.
\<close>

definition seg :: "(char \<Rightarrow> bool) \<Rightarrow> string \<Rightarrow> (string \<times> string) option" where
  "seg P s =
     (case dropWhile P s of
        [] \<Rightarrow> None
      | c # r \<Rightarrow> if takeWhile P s \<noteq> [] then Some (takeWhile P s, r) else None)"

definition rest_line :: "string \<Rightarrow> string option" where
  "rest_line s =
     (case s of [] \<Rightarrow> None | c # cs \<Rightarrow> if dot c then Some (takeWhile dot s) else None)"

definition user_name :: "string \<Rightarrow> (string \<times> string) option" where
  "user_name s =
     (case seg not_slash s of
        None \<Rightarrow> None
      | Some (u, r) \<Rightarrow> (case rest_line r of None \<Rightarrow> None | Some n \<Rightarrow> Some (u, n)))"

text \<open>The suffix policy in the words of the specification: \<open>.git\<close> is appended unless
  the host is \<open>git.sr.ht\<close> or the URL already ends in \<open>.git\<close>.\<close>

definition suffix_policy :: "string \<Rightarrow> string \<Rightarrow> string" where
  "suffix_policy h u = (if h = ''git.sr.ht'' \<or> endsWith u ''.git'' then u else u @ ''.git'')"

text \<open>The number that a string of decimal digits denotes.\<close>

definition digit_value :: "char \<Rightarrow> nat" where
  "digit_value c = length (takeWhile (\<lambda>d. d \<noteq> c) ''0123456789'')"

definition decimal_value :: "string \<Rightarrow> nat" where
  "decimal_value ds = foldl (\<lambda>a c. 10 * a + digit_value c) 0 ds"

text \<open>An argument that is a \<open>--depth\<close> flag.\<close>

definition is_depth_flag :: "string \<Rightarrow> bool" where
  "is_depth_flag a = startsWith a ''--depth''"

text \<open>
  The hosts on which building a URL and parsing it again give the same components: not
  empty; under \<open>https\<close> without a slash; under \<open>ssh\<close> not beginning with a colon and
  without a slash behind its first colon.
\<close>

definition stable_host :: "string \<Rightarrow> string \<Rightarrow> bool" where
  "stable_host proto h =
     (if proto = ''ssh''
      then takeWhile not_colon h \<noteq> [] \<and> CHR ''/'' \<notin> set (dropWhile not_colon h)
      else h \<noteq> [] \<and> CHR ''/'' \<notin> set h)"

subsection \<open>Example inputs\<close>

definition example_env :: env where
  "example_env =
     \<lparr>isAbsolute = (\<lambda>s. startsWith s ''/''),
      isDirectory = (\<lambda>s. s = ''/home/me/plugin'' \<or> s = ''/opt/archive/v1.zip''
                         \<or> s = ''/cache/repos/github.com/Shougo/dpp.vim''),
      safeStat = (\<lambda>s. False),
      expand = (\<lambda>s. s),
      base_path = ''/cache'',
      cwd = ''/'',
      readTextFile = (\<lambda>s. None),
      commandOutput = (\<lambda>c a d. if a = [''merge-base'', ''0a1b2c'', ''3d4e5f'']
                                 then Some ''0a1b2c'' else Some []),
      formatNumber = (\<lambda>x. if x = 3 / 2 then ''1.5'' else ''1e+21'')\<rparr>"

definition example_plugin :: "string \<Rightarrow> plugin" where
  "example_plugin r = no_plugin\<lparr>repo := Some r\<rparr>"

text \<open>A plugin that is installed, and one that is not yet.\<close>

definition installed_plugin :: plugin where
  "installed_plugin =
     no_plugin\<lparr>repo := Some ''Shougo/dpp.vim'',
                path := Some ''/cache/repos/github.com/Shougo/dpp.vim''\<rparr>"

definition new_plugin :: plugin where
  "new_plugin =
     no_plugin\<lparr>repo := Some ''Shougo/ddu.vim'',
                path := Some ''/cache/repos/github.com/Shougo/ddu.vim'',
                rev := Some ''v1.0''\<rparr>"

text \<open>An installed plugin with a remote of its own, under either variant's property.\<close>

definition upstream_plugin :: plugin where
  "upstream_plugin =
     installed_plugin\<lparr>protocolAttrs := Some \<lparr>gitDefaultBranch = None,
                                                gitRemote = Some ''upstream''\<rparr>,
                       dunder_gitRemote := Some ''fork''\<rparr>"

definition shallow_params :: params where
  "shallow_params =
     default_params\<lparr>cloneDepth := Finite 25,
                    pullArgs := [''pull'', ''--depth=25'', ''--ff-only'']\<rparr>"

text \<open>Self-signed certificates, the saved password, partial clones.\<close>

definition insecure_params :: params where
  "insecure_params =
     default_params\<lparr>enableCredentialHelper := True, enablePartialClone := True,
                    enableSSLVerify := False\<rparr>"


section \<open>The matchers are deterministic\<close>

lemma lit_Cons: "lit (d # ds) s = (case s of [] \<Rightarrow> [] | c # r \<Rightarrow> if c = d then lit ds r else [])"
  by (cases s) (auto simp: lit_def)

lemma lit_Nil: "lit [] s = [s]"
  by (simp add: lit_def)

lemma plus_class_delim_aux:
  assumes G: "\<And>m. G m [] = []"
  shows "concat (map (\<lambda>(m, r). G m (lit (d # ds) r)) (plus_class (\<lambda>x. x \<noteq> d) s)) =
         (case dropWhile (\<lambda>x. x \<noteq> d) s of
            [] \<Rightarrow> []
          | c # r \<Rightarrow> if takeWhile (\<lambda>x. x \<noteq> d) s \<noteq> []
                     then G (takeWhile (\<lambda>x. x \<noteq> d) s) (lit ds r) else [])"
  using G
proof (induction s arbitrary: G)
  case Nil
  then show ?case by simp
next
  case (Cons c cs)
  show ?case
  proof (cases "c \<noteq> d")
    case False
    then show ?thesis by simp
  next
    case True
    have G': "\<And>m. G (c # m) [] = []" by (simp add: Cons.prems)
    have split: "concat (map (\<lambda>(m, r). G m (lit (d # ds) r)) (plus_class (\<lambda>x. x \<noteq> d) (c # cs))) =
        concat (map (\<lambda>(m, r). G (c # m) (lit (d # ds) r)) (plus_class (\<lambda>x. x \<noteq> d) cs))
        @ G [c] (lit (d # ds) cs)"
      using True by (simp add: comp_def case_prod_unfold)
    show ?thesis
    proof (cases cs)
      case Nil
      then show ?thesis using True Cons.prems by (simp add: lit_Cons)
    next
      case (Cons a list)
      show ?thesis
        unfolding split Cons.IH [of "\<lambda>m. G (c # m)", OF G'] using True Cons.prems
        by (cases "a = d") (simp_all add: Cons lit_Cons cong: list.case_cong)
    qed
  qed
qed

lemma case_case_list:
  "(case (case l of [] \<Rightarrow> None | c # r \<Rightarrow> f c r) of None \<Rightarrow> a | Some y \<Rightarrow> g y) =
     (case l of [] \<Rightarrow> a | c # r \<Rightarrow> (case f c r of None \<Rightarrow> a | Some y \<Rightarrow> g y))"
  by (cases l) simp_all

lemma plus_class_delim_gen:
  assumes "\<And>m. G m [] = []" and "P = (\<lambda>x. x \<noteq> d)"
  shows "concat (map (\<lambda>(m, r). G m (lit (d # ds) r)) (plus_class P s)) =
         (case seg P s of None \<Rightarrow> [] | Some (m, r) \<Rightarrow> G m (lit ds r))"
  unfolding assms(2) plus_class_delim_aux [of G, OF assms(1)] seg_def case_case_list
  by (rule list.case_cong) simp_all

lemma not_colon_eq: "not_colon = (\<lambda>x. x \<noteq> CHR '':'')"
  by (simp add: fun_eq_iff not_colon_def)

lemma not_slash_eq: "not_slash = (\<lambda>x. x \<noteq> CHR ''/'')"
  by (simp add: fun_eq_iff not_slash_def)

text \<open>The three forms in which \<open>[^c]+c\<close> occurs in the comprehensions.\<close>

lemmas colon_then_concat =
  plus_class_delim_gen [where G = "\<lambda>m l. concat (map (F m) l)" and P = not_colon,
    OF _ not_colon_eq, simplified] for F

lemmas slash_then_concat =
  plus_class_delim_gen [where G = "\<lambda>m l. concat (map (F m) l)" and P = not_slash,
    OF _ not_slash_eq, simplified] for F

lemmas slash_then_map =
  plus_class_delim_gen [where G = "\<lambda>m l. map (F m) l" and P = not_slash,
    OF _ not_slash_eq, simplified] for F

text \<open>The first element of \<open>[class]+\<close> is the longest match.\<close>

lemma plus_class_hd:
  "plus_class P s =
     (case s of [] \<Rightarrow> []
      | c # cs \<Rightarrow> if P c then (takeWhile P s, dropWhile P s) # tl (plus_class P s) else [])"
proof (induction s)
  case Nil
  then show ?case by simp
next
  case (Cons c cs)
  then show ?case by (cases cs) (auto split: if_splits)
qed

lemma first_match_plus_class:
  "first_match (map f (plus_class dot s)) =
     (case rest_line s of None \<Rightarrow> None | Some n \<Rightarrow> Some (f (n, dropWhile dot s)))"
  by (subst plus_class_hd) (simp add: first_match_def rest_line_def split: list.splits)

text \<open>Moving \<open>first_match\<close> and \<open>concat (map _ _)\<close> inwards.\<close>

lemma first_match_lit:
  "first_match (concat (map F (lit p s))) =
     (if startsWith s p then first_match (F (drop (length p) s)) else None)"
  by (simp add: lit_def startsWith_def first_match_def)

lemma first_match_Nil: "first_match [] = None"
  by (simp add: first_match_def)

lemma first_match_if: "first_match (if b then xs else []) = (if b then first_match xs else None)"
  by (simp add: first_match_def)

lemma first_match_case:
  "first_match (case x of None \<Rightarrow> [] | Some y \<Rightarrow> f y) =
     (case x of None \<Rightarrow> None | Some y \<Rightarrow> first_match (f y))"
  by (simp add: first_match_def split: option.splits)

lemma first_match_prod:
  "first_match (case y of (m, r) \<Rightarrow> f m r) = (case y of (m, r) \<Rightarrow> first_match (f m r))"
  by (simp split: prod.splits)

lemma first_match_append:
  "first_match (xs @ ys) = (case first_match xs of None \<Rightarrow> first_match ys | Some x \<Rightarrow> Some x)"
  by (cases xs) (simp_all add: first_match_def)

lemma concat_map_single: "concat (map F [x]) = F x"
  by simp

lemma concat_map_lit:
  "concat (map F (lit (c # cs) s)) =
     (if startsWith s (c # cs) then F (drop (length (c # cs)) s) else [])"
  by (simp add: lit_def startsWith_def)

lemma concat_map_case:
  "concat (map F (case x of None \<Rightarrow> [] | Some y \<Rightarrow> g y)) =
     (case x of None \<Rightarrow> [] | Some y \<Rightarrow> concat (map F (g y)))"
  by (simp split: option.splits)

lemma concat_map_prod:
  "concat (map F (case y of (m, r) \<Rightarrow> g m r)) = (case y of (m, r) \<Rightarrow> concat (map F (g m r)))"
  by (simp split: prod.splits)

lemma concat_map_if:
  "concat (map F (if b then xs else [])) = (if b then concat (map F xs) else [])"
  by simp

text \<open>
  The rewriting goes in two rounds: first the pieces \<open>[^c]+c\<close> and the final \<open>.+\<close>, then
  the literals that are left and the plumbing.
\<close>

lemmas match_simps =
  colon_then_concat slash_then_concat slash_then_map lit_Nil first_match_lit first_match_Nil
  first_match_if first_match_case first_match_prod first_match_plus_class concat_map_single

lemmas match_simps3 =
  match_simps concat_map_lit first_match_append concat_map_case concat_map_prod
  concat_map_if map_append concat_append list.map prod.case concat.simps append_Nil2

lemma sshMatch_seg:
  "sshMatch s =
     (if startsWith s ''git@'' then
        (case seg not_colon (drop (length ''git@'') s) of
           None \<Rightarrow> None
         | Some (h, r1) \<Rightarrow>
        (case seg not_slash r1 of
           None \<Rightarrow> None
         | Some (u, r2) \<Rightarrow>
        (case rest_line r2 of
           None \<Rightarrow> None
         | Some n \<Rightarrow> Some (h, u, n))))
      else None)"
  unfolding sshMatch_def
  by (simp only: match_simps cong: option.case_cong if_cong prod.case_cong,
      (simp only: match_simps3 cong: if_cong option.case_cong prod.case_cong)?,
      (simp split: option.splits prod.splits)?)

lemma protocolMatch_seg:
  "protocolMatch s =
     (case seg not_colon s of
        None \<Rightarrow> None
      | Some (p, r1) \<Rightarrow>
          if startsWith r1 ''//'' then
            (case seg not_slash (drop (length ''//'') r1) of
               None \<Rightarrow> None
             | Some (h, r2) \<Rightarrow>
            (case seg not_slash r2 of
               None \<Rightarrow> None
             | Some (u, r3) \<Rightarrow>
            (case rest_line r3 of
               None \<Rightarrow> None
             | Some n \<Rightarrow> Some (p, h, u, n))))
          else None)"
  unfolding protocolMatch_def
  by (simp only: match_simps cong: option.case_cong if_cong prod.case_cong,
      (simp only: match_simps3 cong: if_cong option.case_cong prod.case_cong)?,
      (simp split: option.splits prod.splits)?)

lemma hostMatch_seg:
  "hostMatch s =
     (case (case seg not_slash s of
              None \<Rightarrow> None
            | Some (h, r) \<Rightarrow>
                (case user_name r of None \<Rightarrow> None | Some (u, n) \<Rightarrow> Some (Some h, u, n))) of
        Some x \<Rightarrow> Some x
      | None \<Rightarrow> (case user_name s of None \<Rightarrow> None | Some (u, n) \<Rightarrow> Some (None, u, n)))"
  unfolding hostMatch_def opt_host_def
  by (simp only: match_simps cong: option.case_cong if_cong prod.case_cong,
      (simp only: match_simps3 cong: if_cong option.case_cong prod.case_cong)?,
      (simp add: user_name_def split: option.splits prod.splits)?)

lemma git_ts_sshMatch_seg:
  "git_ts_sshMatch s =
     (if startsWith s ''git@'' then
        (case seg not_colon (drop (length ''git@'') s) of
           None \<Rightarrow> None
         | Some (h, r1) \<Rightarrow>
        (case rest_line r1 of
           None \<Rightarrow> None
         | Some n \<Rightarrow> Some (h, n)))
      else None)"
  unfolding git_ts_sshMatch_def
  by (simp only: match_simps cong: option.case_cong if_cong prod.case_cong,
      (simp only: match_simps3 cong: if_cong option.case_cong prod.case_cong)?,
      (simp split: option.splits prod.splits)?)

lemma git_ts_protocolMatch_seg:
  "git_ts_protocolMatch s =
     (case seg not_colon s of
        None \<Rightarrow> None
      | Some (p, r1) \<Rightarrow>
          if startsWith r1 ''//'' then
            (case seg not_slash (drop (length ''//'') r1) of
               None \<Rightarrow> None
             | Some (h, r2) \<Rightarrow>
            (case rest_line r2 of
               None \<Rightarrow> None
             | Some n \<Rightarrow> Some (p, h, n)))
          else None)"
  unfolding git_ts_protocolMatch_def
  by (simp only: match_simps cong: option.case_cong if_cong prod.case_cong,
      (simp only: match_simps3 cong: if_cong option.case_cong prod.case_cong)?,
      (simp split: option.splits prod.splits)?)

lemma seg_Some_iff:
  "seg P s = Some (m, r) \<longleftrightarrow> m \<noteq> [] \<and> (\<forall>x\<in>set m. P x) \<and> (\<exists>c. \<not> P c \<and> s = m @ c # r)"
proof
  assume "seg P s = Some (m, r)"
  then obtain c where d: "dropWhile P s = c # r" and m: "m = takeWhile P s" and ne: "m \<noteq> []"
    by (auto simp: seg_def split: list.splits if_splits)
  have "\<not> P c" using hd_dropWhile [of P s] d by simp
  moreover have "s = m @ c # r" using takeWhile_dropWhile_id [of P s] d m by simp
  moreover have "\<forall>x\<in>set m. P x" using m by (auto dest: set_takeWhileD)
  ultimately show "m \<noteq> [] \<and> (\<forall>x\<in>set m. P x) \<and> (\<exists>c. \<not> P c \<and> s = m @ c # r)"
    using ne by blast
next
  assume "m \<noteq> [] \<and> (\<forall>x\<in>set m. P x) \<and> (\<exists>c. \<not> P c \<and> s = m @ c # r)"
  then obtain c where ne: "m \<noteq> []" and all: "\<forall>x\<in>set m. P x" and c: "\<not> P c" and s: "s = m @ c # r"
    by blast
  have "takeWhile P s = m" using all c s by (simp add: takeWhile_tail)
  moreover have "dropWhile P s = c # r" using all c s by (simp add: dropWhile_append3)
  ultimately show "seg P s = Some (m, r)" using ne by (simp add: seg_def)
qed

lemma rest_line_Some_iff:
  "rest_line s = Some n \<longleftrightarrow>
     n \<noteq> [] \<and> (\<forall>x\<in>set n. dot x) \<and> (\<exists>r. s = n @ r \<and> (case r of [] \<Rightarrow> True | c # cs \<Rightarrow> \<not> dot c))"
proof
  assume "rest_line s = Some n"
  then obtain c cs where s: "s = c # cs" and c: "dot c" and n: "n = takeWhile dot s"
    by (auto simp: rest_line_def split: list.splits if_splits)
  have "s = n @ dropWhile dot s" using n by simp
  moreover have "case dropWhile dot s of [] \<Rightarrow> True | c # cs \<Rightarrow> \<not> dot c"
  proof (cases "dropWhile dot s")
    case Nil
    show ?thesis by (simp only: Nil list.case)
  next
    case (Cons a list)
    then show ?thesis using hd_dropWhile [of dot s] by simp
  qed
  moreover have "\<forall>x\<in>set n. dot x" using n by (auto dest: set_takeWhileD)
  moreover have "n \<noteq> []" using n s c by simp
  ultimately show "n \<noteq> [] \<and> (\<forall>x\<in>set n. dot x) \<and> (\<exists>r. s = n @ r \<and> (case r of [] \<Rightarrow> True | c # cs \<Rightarrow> \<not> dot c))"
    by blast
next
  assume "n \<noteq> [] \<and> (\<forall>x\<in>set n. dot x) \<and> (\<exists>r. s = n @ r \<and> (case r of [] \<Rightarrow> True | c # cs \<Rightarrow> \<not> dot c))"
  then obtain r where ne: "n \<noteq> []" and all: "\<forall>x\<in>set n. dot x" and s: "s = n @ r"
    and r: "case r of [] \<Rightarrow> True | c # cs \<Rightarrow> \<not> dot c"
    by blast
  have "takeWhile dot s = n"
    using all s r by (cases r) (simp_all add: takeWhile_tail)
  moreover obtain c cs where "n = c # cs" using ne by (cases n) auto
  ultimately show "rest_line s = Some n" using s all by (auto simp: rest_line_def)
qed


text \<open>What a match of each grammar captures.\<close>

lemma sshMatch_SomeD:
  assumes "sshMatch s = Some (h, u, n)"
  shows "h \<noteq> []" and "\<forall>x\<in>set h. not_colon x"
    and "u \<noteq> []" and "\<forall>x\<in>set u. not_slash x" and "n \<noteq> []" and "\<forall>x\<in>set n. dot x"
  using assms
  by (auto simp: sshMatch_seg seg_Some_iff rest_line_Some_iff split: if_splits option.splits)

lemma protocolMatch_SomeD:
  assumes "protocolMatch s = Some (p, h, u, n)"
  shows "p \<noteq> []" and "h \<noteq> []" and "\<forall>x\<in>set h. not_slash x"
    and "u \<noteq> []" and "\<forall>x\<in>set u. not_slash x" and "n \<noteq> []" and "\<forall>x\<in>set n. dot x"
  using assms
  by (auto simp: protocolMatch_seg seg_Some_iff rest_line_Some_iff split: if_splits option.splits)

lemma hostMatch_SomeD:
  assumes "hostMatch s = Some (ho, u, n)"
  shows "u \<noteq> []" and "\<forall>x\<in>set u. not_slash x" and "n \<noteq> []" and "\<forall>x\<in>set n. dot x"
    and "\<forall>h. ho = Some h \<longrightarrow> h \<noteq> [] \<and> (\<forall>x\<in>set h. not_slash x)"
  using assms
  by (auto simp: hostMatch_seg user_name_def seg_Some_iff rest_line_Some_iff split: if_splits option.splits)

text \<open>What every parse result satisfies, whichever grammar produced it.\<close>

lemma parse_user_no_slash: "\<forall>x\<in>set (user (parseIdentifier r hubSite proto)). not_slash x"
  by (auto simp: parseIdentifier_def split: option.splits
      dest: sshMatch_SomeD protocolMatch_SomeD hostMatch_SomeD)

lemma parse_name_no_terminator: "\<forall>x\<in>set (name (parseIdentifier r hubSite proto)). dot x"
  by (auto simp: parseIdentifier_def split: option.splits
      dest: sshMatch_SomeD protocolMatch_SomeD hostMatch_SomeD)

lemma buildUrl_nonempty:
  assumes "buildUrl p \<noteq> []"
  shows "user p \<noteq> []" and "name p \<noteq> []" and "protocol p = ''https'' \<or> protocol p = ''ssh''"
  using assms by (auto simp: buildUrl_def split: if_splits)

text \<open>Conversely, what the grammars match on an identifier of a given shape.\<close>

lemma seg_append:
  assumes "m \<noteq> []" and "\<forall>x\<in>set m. P x" and "\<not> P c"
  shows "seg P (m @ c # r) = Some (m, r)"
  using assms by (auto simp: seg_Some_iff)

lemma seg_None_all:
  assumes "\<forall>x\<in>set s. P x"
  shows "seg P s = None"
proof -
  have "dropWhile P s = []" using assms by simp
  then show ?thesis by (simp only: seg_def list.case)
qed

lemma rest_line_all:
  assumes "n \<noteq> []" and "\<forall>x\<in>set n. dot x"
  shows "rest_line n = Some n"
  using assms by (simp add: rest_line_Some_iff)

lemma user_name_append:
  assumes "u \<noteq> []" and "\<forall>x\<in>set u. not_slash x" and "n \<noteq> []" and "\<forall>x\<in>set n. dot x"
  shows "user_name (u @ CHR ''/'' # n) = Some (u, n)"
  using assms by (simp add: user_name_def seg_append rest_line_all not_slash_def)

lemma hostMatch_two:
  assumes "u \<noteq> []" and "\<forall>x\<in>set u. not_slash x" and "n \<noteq> []" and "\<forall>x\<in>set n. dot x"
    and "\<forall>x\<in>set n. not_slash x"
  shows "hostMatch (u @ CHR ''/'' # n) = Some (None, u, n)"
proof -
  have "seg not_slash (u @ CHR ''/'' # n) = Some (u, n)"
    using assms by (simp add: seg_append not_slash_def)
  moreover have "user_name n = None"
    using assms by (simp add: user_name_def seg_None_all)
  ultimately show ?thesis
    using user_name_append [OF assms(1-4)] by (simp add: hostMatch_seg)
qed

lemma hostMatch_three:
  assumes "h \<noteq> []" and "\<forall>x\<in>set h. not_slash x"
    and "u \<noteq> []" and "\<forall>x\<in>set u. not_slash x" and "n \<noteq> []" and "\<forall>x\<in>set n. dot x"
  shows "hostMatch (h @ CHR ''/'' # u @ CHR ''/'' # n) = Some (Some h, u, n)"
proof -
  have "seg not_slash (h @ CHR ''/'' # u @ CHR ''/'' # n) = Some (h, u @ CHR ''/'' # n)"
    using assms by (simp add: seg_append not_slash_def)
  then show ?thesis
    using user_name_append [OF assms(3-6)] by (simp add: hostMatch_seg)
qed

lemma endsWith_append_git: "endsWith (x @ ''.git'') ''.git''"
  by (simp add: endsWith_def)

lemma dot_git: "\<forall>x\<in>set ''.git''. dot x"
  by (simp add: dot_def)

text \<open>The URL that \<open>buildUrl\<close> returns, written with the name and the suffix as one tail.\<close>

lemma buildUrl_shape:
  assumes "buildUrl p \<noteq> []" and "\<forall>x\<in>set (name p). dot x"
  obtains t where "t \<noteq> []" and "\<forall>x\<in>set t. dot x"
    and "buildUrl p =
           (if protocol p = ''ssh'' then ''git@'' @ host p @ '':'' @ user p @ ''/'' @ t
            else ''https://'' @ host p @ ''/'' @ user p @ ''/'' @ t)"
    and "host p = ''git.sr.ht'' \<or> endsWith (buildUrl p) ''.git''"
proof -
  have v: "user p \<noteq> []" "name p \<noteq> []" "protocol p = ''https'' \<or> protocol p = ''ssh''"
    using buildUrl_nonempty [OF assms(1)] by simp_all
  define b where "b = (if protocol p = ''ssh''
                 then ''git@'' @ host p @ '':'' @ user p @ ''/'' @ name p
                 else protocol p @ ''://'' @ host p @ ''/'' @ user p @ ''/'' @ name p)"
  have bu: "buildUrl p = (if host p = ''git.sr.ht'' \<or> endsWith b ''.git'' then b else b @ ''.git'')"
    using v by (auto simp: buildUrl_def b_def Let_def)
  show thesis
  proof (cases "host p = ''git.sr.ht'' \<or> endsWith b ''.git''")
    case True
    show thesis
    proof (rule that [of "name p"])
      show "name p \<noteq> []" by (rule v(2))
      show "\<forall>x\<in>set (name p). dot x" by (rule assms(2))
      show "buildUrl p =
           (if protocol p = ''ssh'' then ''git@'' @ host p @ '':'' @ user p @ ''/'' @ name p
            else ''https://'' @ host p @ ''/'' @ user p @ ''/'' @ name p)"
        using bu True v(3) by (auto simp: b_def)
      show "host p = ''git.sr.ht'' \<or> endsWith (buildUrl p) ''.git''"
        using bu True by auto
    qed
  next
    case False
    show thesis
    proof (rule that [of "name p @ ''.git''"])
      show "name p @ ''.git'' \<noteq> []" by simp
      show "\<forall>x\<in>set (name p @ ''.git''). dot x" using assms(2) dot_git by auto
      show "buildUrl p =
           (if protocol p = ''ssh''
            then ''git@'' @ host p @ '':'' @ user p @ ''/'' @ name p @ ''.git''
            else ''https://'' @ host p @ ''/'' @ user p @ ''/'' @ name p @ ''.git'')"
        using bu False v(3) by (auto simp: b_def)
      show "host p = ''git.sr.ht'' \<or> endsWith (buildUrl p) ''.git''"
        using bu False endsWith_append_git [of b] by simp
    qed
  qed
qed

text \<open>Parsing an \<open>ssh\<close> URL whose host is stable.\<close>

lemma sshMatch_built:
  assumes "takeWhile not_colon h \<noteq> []" and "CHR ''/'' \<notin> set (dropWhile not_colon h)"
    and "u \<noteq> []" and "\<forall>x\<in>set u. not_slash x" and "t \<noteq> []" and "\<forall>x\<in>set t. dot x"
  shows "\<exists>h' u'. sshMatch (''git@'' @ h @ '':'' @ u @ ''/'' @ t) = Some (h', u', t)
           \<and> u' \<noteq> [] \<and> h' @ '':'' @ u' = h @ '':'' @ u
           \<and> (CHR '':'' \<notin> set h \<longrightarrow> h' = h)"
proof -
  define h1 where "h1 = takeWhile not_colon h"
  define rest where "rest = dropWhile not_colon h"
  have h: "h = h1 @ rest" by (simp add: h1_def rest_def)
  have h1: "h1 \<noteq> []" "\<forall>x\<in>set h1. not_colon x"
    using assms(1) by (auto simp: h1_def dest: set_takeWhileD)
  have nc: "\<not> not_colon CHR '':''" by (simp add: not_colon_def)
  have ns: "\<not> not_slash CHR ''/''" by (simp add: not_slash_def)
  have st: "startsWith (''git@'' @ h @ '':'' @ u @ ''/'' @ t) ''git@''"
    by (simp add: startsWith_def)
  have dr: "drop (length ''git@'') (''git@'' @ h @ '':'' @ u @ ''/'' @ t) = h @ '':'' @ u @ ''/'' @ t"
    by simp
  show ?thesis
  proof (cases rest)
    case Nil
    then have hh: "h = h1" using h by simp
    have a: "seg not_colon (h @ '':'' @ u @ ''/'' @ t) = Some (h1, u @ ''/'' @ t)"
      using seg_append [OF h1 nc, of "u @ ''/'' @ t"] hh by simp
    have b: "seg not_slash (u @ ''/'' @ t) = Some (u, t)"
      using seg_append [OF assms(3,4) ns, of t] by simp
    have "sshMatch (''git@'' @ h @ '':'' @ u @ ''/'' @ t) = Some (h1, u, t)"
      unfolding sshMatch_seg using st a b rest_line_all [OF assms(5,6)]
      by (simp only: dr if_True option.case prod.case)
    then show ?thesis using assms(3) hh by auto
  next
    case (Cons c h2)
    have d: "dropWhile not_colon h = c # h2" using Cons by (simp only: rest_def)
    have "\<not> not_colon (hd (dropWhile not_colon h))"
      by (rule hd_dropWhile) (simp only: d list.distinct not_False_eq_True)
    then have "\<not> not_colon c" unfolding d by simp
    then have c: "c = CHR '':''" by (simp add: not_colon_def)
    have h2: "\<forall>x\<in>set h2. not_slash x"
      using assms(2) Cons by (auto simp: rest_def [symmetric] not_slash_def)
    have u': "h2 @ '':'' @ u \<noteq> []" "\<forall>x\<in>set (h2 @ '':'' @ u). not_slash x"
      using h2 assms(4) by (auto simp: not_slash_def)
    have e: "h @ '':'' @ u @ ''/'' @ t = h1 @ CHR '':'' # ((h2 @ '':'' @ u) @ CHR ''/'' # t)"
      using h Cons c by simp
    have a: "seg not_colon (h @ '':'' @ u @ ''/'' @ t) = Some (h1, (h2 @ '':'' @ u) @ CHR ''/'' # t)"
      unfolding e by (rule seg_append [OF h1 nc])
    have b: "seg not_slash ((h2 @ '':'' @ u) @ CHR ''/'' # t) = Some (h2 @ '':'' @ u, t)"
      by (rule seg_append [OF u' ns])
    have "sshMatch (''git@'' @ h @ '':'' @ u @ ''/'' @ t) = Some (h1, h2 @ '':'' @ u, t)"
      unfolding sshMatch_seg using st a b rest_line_all [OF assms(5,6)]
      by (simp only: dr if_True option.case prod.case)
    moreover have "CHR '':'' \<in> set h" using h Cons c by simp
    moreover have "h1 @ '':'' @ h2 @ '':'' @ u = h @ '':'' @ u" using h Cons c by simp
    ultimately show ?thesis using u'(1) by auto
  qed
qed

text \<open>Parsing an \<open>https\<close> URL whose host is stable.\<close>

lemma protocolMatch_built:
  assumes "h \<noteq> []" and "\<forall>x\<in>set h. not_slash x"
    and "u \<noteq> []" and "\<forall>x\<in>set u. not_slash x" and "t \<noteq> []" and "\<forall>x\<in>set t. dot x"
  shows "sshMatch (''https://'' @ h @ ''/'' @ u @ ''/'' @ t) = None"
    and "protocolMatch (''https://'' @ h @ ''/'' @ u @ ''/'' @ t) = Some (''https'', h, u, t)"
proof -
  show "sshMatch (''https://'' @ h @ ''/'' @ u @ ''/'' @ t) = None"
    by (simp add: sshMatch_seg startsWith_def)
  have nc: "\<not> not_colon CHR '':''" by (simp add: not_colon_def)
  have ns: "\<not> not_slash CHR ''/''" by (simp add: not_slash_def)
  have p: "''https'' \<noteq> []" "\<forall>x\<in>set ''https''. not_colon x" by (simp_all add: not_colon_def)
  have a: "seg not_colon (''https://'' @ h @ ''/'' @ u @ ''/'' @ t)
             = Some (''https'', ''//'' @ h @ ''/'' @ u @ ''/'' @ t)"
    using seg_append [OF p nc, of "''//'' @ h @ ''/'' @ u @ ''/'' @ t"] by simp
  have st: "startsWith (''//'' @ h @ ''/'' @ u @ ''/'' @ t) ''//''" by (simp add: startsWith_def)
  have dr: "drop (length ''//'') (''//'' @ h @ ''/'' @ u @ ''/'' @ t) = h @ ''/'' @ u @ ''/'' @ t"
    by simp
  have b: "seg not_slash (h @ ''/'' @ u @ ''/'' @ t) = Some (h, u @ ''/'' @ t)"
    using seg_append [OF assms(1,2) ns, of "u @ ''/'' @ t"] by simp
  have c: "seg not_slash (u @ ''/'' @ t) = Some (u, t)"
    using seg_append [OF assms(3,4) ns, of t] by simp
  show "protocolMatch (''https://'' @ h @ ''/'' @ u @ ''/'' @ t) = Some (''https'', h, u, t)"
    unfolding protocolMatch_seg using a st b c rest_line_all [OF assms(5,6)]
    by (simp only: dr if_True option.case prod.case)
qed

text \<open>Rules that evaluate the URL of a concrete identifier, and the example inputs.\<close>

lemmas url_eval =
  getUrl_def getGitUrl_def parseIdentifier_def buildUrl_def sshMatch_seg protocolMatch_seg
  hostMatch_seg user_name_def seg_def rest_line_def startsWith_def endsWith_def
  not_colon_def not_slash_def dot_def

lemmas example_defs =
  example_env_def example_plugin_def installed_plugin_def new_plugin_def shallow_params_def
  upstream_plugin_def insecure_params_def
  default_params_def no_plugin_def truthy_def

lemmas git_ts_url_eval =
  git_ts_getUrl_def git_ts_parse_def git_ts_sshMatch_seg git_ts_protocolMatch_seg seg_def
  rest_line_def startsWith_def not_colon_def not_slash_def dot_def

lemmas raw_eval =
  rawMatch_def raw_host_def archive_zip_def lit_def not_slash_def dot_def

section \<open>The command planner\<close>

text \<open>
  C9: when the plugin's \<open>repo\<close> or its \<open>path\<close> is missing or empty, each of
  \<open>getSyncCommands\<close>, \<open>getRollbackCommands\<close>, \<open>getDiffCommands\<close>, \<open>getLogCommands\<close>,
  \<open>getChangesCountCommands\<close> and \<open>getRevisionLockCommands\<close> returns the empty command
  list, as a value and not as an error, and \<open>getRevision\<close> returns the empty string.
\<close>

theorem inapplicable_operations_empty:
  assumes "\<not> truthy (repo pl) \<or> \<not> truthy (path pl)"
  shows "getSyncCommands e ps pl = ([], [])
       \<and> getRollbackCommands ps pl v = []
       \<and> getDiffCommands ps pl newRev oldRev = []
       \<and> getLogCommands e ps pl newRev oldRev = Inr []
       \<and> getChangesCountCommands ps pl newRev oldRev = []
       \<and> getRevisionLockCommands e ps pl = Inr []
       \<and> getRevision e pl = Inr []"
  using assms
  by (auto simp: getSyncCommands_def getRollbackCommands_def getDiffCommands_def
      getLogCommands_def getChangesCountCommands_def getRevisionLockCommands_def
      getRevision_def)

theorem inapplicable_operations_empty_witness:
  "\<not> truthy (repo (example_plugin []))
   \<and> getSyncCommands example_env default_params (example_plugin []) = ([], [])
   \<and> getRollbackCommands default_params (example_plugin []) ''0a1b2c'' = []
   \<and> getDiffCommands default_params (example_plugin []) ''3d4e5f'' ''0a1b2c'' = []
   \<and> getLogCommands example_env default_params (example_plugin []) ''3d4e5f'' ''0a1b2c'' = Inr []
   \<and> getChangesCountCommands default_params (example_plugin []) ''3d4e5f'' ''0a1b2c'' = []
   \<and> getRevisionLockCommands example_env default_params (example_plugin []) = Inr []
   \<and> getRevision example_env (example_plugin []) = Inr []"
proof -
  have r: "\<not> truthy (repo (example_plugin []))"
    by (simp add: truthy_def example_plugin_def no_plugin_def)
  then have h: "\<not> truthy (repo (example_plugin [])) \<or> \<not> truthy (path (example_plugin []))"
    by simp
  show ?thesis
    using r inapplicable_operations_empty [OF h, of example_env default_params
        "''0a1b2c''" "''3d4e5f''" "''0a1b2c''"]
    by simp
qed

text \<open>
  C10: with a non-empty \<open>repo\<close> and \<open>path\<close>, \<open>getChangesCountCommands\<close> returns the one
  command \<open>rev-list --count <oldRev>..<newRev>\<close> whatever the two revisions are, the
  empty string included; \<open>getLogCommands\<close> on the contrary returns no command when one of
  them is empty.
\<close>

theorem changes_count_unchecked:
  assumes "truthy (repo pl)" and "truthy (path pl)"
  shows "getChangesCountCommands ps pl newRev oldRev =
           [\<lparr>command = commandPath ps,
             args = [''rev-list'', ''--count'', oldRev @ ''..'' @ newRev]\<rparr>]
       \<and> (oldRev = [] \<or> newRev = [] \<longrightarrow> getLogCommands e ps pl newRev oldRev = Inr [])"
  using assms by (simp add: getChangesCountCommands_def getLogCommands_def)

theorem changes_count_unchecked_witness:
  "truthy (repo installed_plugin) \<and> truthy (path installed_plugin)
   \<and> getChangesCountCommands default_params installed_plugin ''3d4e5f'' [] =
        [\<lparr>command = ''git'', args = [''rev-list'', ''--count'', ''..3d4e5f'']\<rparr>]
   \<and> getLogCommands example_env default_params installed_plugin ''3d4e5f'' [] = Inr []"
proof -
  have r: "truthy (repo installed_plugin)" and p: "truthy (path installed_plugin)"
    by (simp_all add: truthy_def installed_plugin_def no_plugin_def)
  show ?thesis
    using r p changes_count_unchecked [OF r p, of default_params "''3d4e5f''" "[]" example_env]
    by (simp add: default_params_def)
qed

text \<open>
  C4: with non-empty \<open>repo\<close>, \<open>path\<close>, \<open>oldRev\<close> and \<open>newRev\<close>, and the output of the
  \<open>merge-base\<close> process captured, \<open>getLogCommands\<close> returns one \<open>log\<close> command whose range
  is \<open>oldRev..newRev\<close> when that output equals \<open>oldRev\<close> exactly and \<open>oldRev^..newRev\<close>
  otherwise.
\<close>

theorem log_range_selection:
  assumes "truthy (repo pl)" and "truthy (path pl)" and "oldRev \<noteq> []" and "newRev \<noteq> []"
    and "commandOutput e (commandPath ps) [''merge-base'', oldRev, newRev] (workDir e pl)
           = Some stdout"
  shows \<open>getLogCommands e ps pl newRev oldRev =
           Inr [\<lparr>command = commandPath ps,
                 args = [''log'',
                         (if stdout = oldRev then oldRev @ ''..'' @ newRev
                          else oldRev @ ''^..'' @ newRev),
                         ''--graph'', ''--no-show-signature'',
                         ''--pretty=format:"%h [%cr] %s"'']\<rparr>]\<close>
  using assms by (simp add: getLogCommands_def)

theorem log_range_selection_witness:
  \<open>truthy (repo installed_plugin) \<and> truthy (path installed_plugin)
   \<and> ''0a1b2c'' \<noteq> [] \<and> ''3d4e5f'' \<noteq> []
   \<and> commandOutput example_env (commandPath default_params)
        [''merge-base'', ''0a1b2c'', ''3d4e5f''] (workDir example_env installed_plugin)
        = Some ''0a1b2c''
   \<and> getLogCommands example_env default_params installed_plugin ''3d4e5f'' ''0a1b2c'' =
        Inr [\<lparr>command = ''git'',
              args = [''log'', ''0a1b2c..3d4e5f'', ''--graph'', ''--no-show-signature'',
                      ''--pretty=format:"%h [%cr] %s"'']\<rparr>]\<close>
proof -
  have r: "truthy (repo installed_plugin)" and p: "truthy (path installed_plugin)"
    by (simp_all add: truthy_def installed_plugin_def no_plugin_def)
  have o: "''0a1b2c'' \<noteq> []" and n: "''3d4e5f'' \<noteq> []" by simp_all
  have c: "commandOutput example_env (commandPath default_params)
        [''merge-base'', ''0a1b2c'', ''3d4e5f''] (workDir example_env installed_plugin)
        = Some ''0a1b2c''"
    by (simp add: example_env_def)
  show ?thesis
    using r p c log_range_selection [OF r p o n c]
    by (simp add: default_params_def)
qed


text \<open>The digits that \<open>decimal\<close> prints denote the number, without a leading zero.\<close>

lemma digit_char_digit: "d < 10 \<Longrightarrow> digit_char d \<in> set ''0123456789''"
  by (simp add: digit_char_def)

lemma digit_value_digit_char: "d < 10 \<Longrightarrow> digit_value (digit_char d) = d"
  by (auto simp: digit_char_def digit_value_def)

lemma digit_char_zero: "d < 10 \<Longrightarrow> digit_char d = CHR ''0'' \<longleftrightarrow> d = 0"
  by (simp add: digit_char_def)

lemma decimal_value_snoc:
  "decimal_value (ds @ [c]) = 10 * decimal_value ds + digit_value c"
  by (simp add: decimal_value_def)

lemma decimal_nonempty: "decimal n \<noteq> []"
  by (subst decimal.simps) simp

lemma decimal_digits: "set (decimal n) \<subseteq> set ''0123456789''"
proof (induction n rule: decimal.induct)
  case (1 n)
  show ?case
  proof (cases "n < 10")
    case True
    then show ?thesis using digit_char_digit [of n] by (subst decimal.simps) simp
  next
    case False
    have "n mod 10 < 10" by simp
    then have "digit_char (n mod 10) \<in> set ''0123456789''" by (rule digit_char_digit)
    then show ?thesis using 1 False by (subst decimal.simps) simp
  qed
qed

lemma decimal_value_decimal: "decimal_value (decimal n) = n"
proof (induction n rule: decimal.induct)
  case (1 n)
  show ?case
  proof (cases "n < 10")
    case True
    then show ?thesis
      by (subst decimal.simps) (simp add: decimal_value_def digit_value_digit_char)
  next
    case False
    have "decimal_value (decimal (n div 10) @ [digit_char (n mod 10)]) =
        10 * (n div 10) + n mod 10"
      using 1 False by (simp add: decimal_value_snoc digit_value_digit_char)
    then show ?thesis using False by (subst decimal.simps) simp
  qed
qed

lemma decimal_no_leading_zero: "0 < n \<Longrightarrow> hd (decimal n) \<noteq> CHR ''0''"
proof (induction n rule: decimal.induct)
  case (1 n)
  show ?case
  proof (cases "n < 10")
    case True
    then show ?thesis using "1.prems" by (subst decimal.simps) (simp add: digit_char_zero)
  next
    case False
    then have "0 < n div 10" by simp
    then have "hd (decimal (n div 10)) \<noteq> CHR ''0''" using 1 False by simp
    then show ?thesis using False decimal_nonempty [of "n div 10"]
      by (subst decimal.simps) simp
  qed
qed

text \<open>The two tests on \<open>cloneDepth\<close>: \<open>!depth && depth <= 0\<close> and \<open>depth && depth > 0\<close>.\<close>

lemma zero_depth: "\<not> truthy_number d \<and> le_zero d \<longleftrightarrow> d = Finite 0"
  by (cases d) (auto simp: truthy_number_def le_zero_def)

lemma positive_depth:
  "truthy_number d \<and> gt_zero d \<longleftrightarrow> d = PosInfinity \<or> (\<exists>x. d = Finite x \<and> 0 < x)"
  by (cases d) (auto simp: truthy_number_def gt_zero_def)

text \<open>
  C3: with a non-empty \<open>repo\<close> and a non-empty \<open>path\<close> that is a directory,
  \<open>getSyncCommands\<close> returns, in this order, (1) \<open>fetch\<close> behind the credential flags
  (unless \<open>enableCredentialHelper\<close>) and the TLS flag (unless \<open>enableSSLVerify\<close>), (2)
  \<open>remote set-head <remote> -a\<close> for \<open>gitRemote\<close> of the plugin's \<open>protocolAttrs\<close> or
  else \<open>defaultRemote\<close>, present exactly when \<open>cloneDepth\<close> is zero, (3) the configured
  \<open>pullArgs\<close> as they are, (4) \<open>submodule update --init --recursive\<close>. git.ts returns the
  same plan, its \<open>fetch\<close> behind the fixed flag \<open>-c credential.helper=\<close> and its remote
  the plugin's \<open>__gitRemote\<close> or else \<open>defaultRemote\<close>.
\<close>

theorem update_plan_order:
  assumes "truthy (repo pl)" and "path pl = Some p" and "p \<noteq> []" and "isDirectory e p"
  shows "getSyncCommands e ps pl =
           ([\<lparr>command = commandPath ps,
              args = (if enableCredentialHelper ps then []
                      else [''-c'', ''credential.helper='', ''-c'', ''core.fsmonitor=false'']) @
                     (if enableSSLVerify ps then [] else [''-c'', ''http.sslVerify=false'']) @
                     [''fetch'']\<rparr>] @
            (if cloneDepth ps = Finite 0
             then [\<lparr>command = commandPath ps,
                     args = [''remote'', ''set-head'',
                             (case protocolAttrs pl of
                                None \<Rightarrow> defaultRemote ps
                              | Some a \<Rightarrow>
                                  (case gitRemote a of
                                     None \<Rightarrow> defaultRemote ps
                                   | Some g \<Rightarrow> g)),
                             ''-a'']\<rparr>]
             else []) @
            [\<lparr>command = commandPath ps, args = pullArgs ps\<rparr>,
             \<lparr>command = commandPath ps,
              args = [''submodule'', ''update'', ''--init'', ''--recursive'']\<rparr>], [])
       \<and> git_ts_getSyncCommands e ps pl =
           ([\<lparr>command = commandPath ps, args = [''-c'', ''credential.helper='', ''fetch'']\<rparr>] @
            (if cloneDepth ps = Finite 0
             then [\<lparr>command = commandPath ps,
                     args = [''remote'', ''set-head'',
                             (case dunder_gitRemote pl of
                                None \<Rightarrow> defaultRemote ps
                              | Some g \<Rightarrow> g),
                             ''-a'']\<rparr>]
             else []) @
            [\<lparr>command = commandPath ps, args = pullArgs ps\<rparr>,
             \<lparr>command = commandPath ps,
              args = [''submodule'', ''update'', ''--init'', ''--recursive'']\<rparr>], [])"
  using assms zero_depth [of "cloneDepth ps"]
  by (simp add: getSyncCommands_def git_ts_getSyncCommands_def updateCommands_def
      git_ts_updateCommands_def remoteArgs_def submoduleArgs_def truthy_def initArgs_def
      credentialHelper_def sslVerify_def remoteName_def git_ts_remoteName_def)

theorem update_plan_order_witness:
  "truthy (repo upstream_plugin)
   \<and> path upstream_plugin = Some ''/cache/repos/github.com/Shougo/dpp.vim''
   \<and> ''/cache/repos/github.com/Shougo/dpp.vim'' \<noteq> []
   \<and> isDirectory example_env ''/cache/repos/github.com/Shougo/dpp.vim''
   \<and> getSyncCommands example_env insecure_params upstream_plugin =
        ([\<lparr>command = ''git'', args = [''-c'', ''http.sslVerify=false'', ''fetch'']\<rparr>,
          \<lparr>command = ''git'', args = [''remote'', ''set-head'', ''upstream'', ''-a'']\<rparr>,
          \<lparr>command = ''git'', args = [''pull'', ''--ff'', ''--ff-only'']\<rparr>,
          \<lparr>command = ''git'',
           args = [''submodule'', ''update'', ''--init'', ''--recursive'']\<rparr>], [])
   \<and> git_ts_getSyncCommands example_env insecure_params upstream_plugin =
        ([\<lparr>command = ''git'', args = [''-c'', ''credential.helper='', ''fetch'']\<rparr>,
          \<lparr>command = ''git'', args = [''remote'', ''set-head'', ''fork'', ''-a'']\<rparr>,
          \<lparr>command = ''git'', args = [''pull'', ''--ff'', ''--ff-only'']\<rparr>,
          \<lparr>command = ''git'',
           args = [''submodule'', ''update'', ''--init'', ''--recursive'']\<rparr>], [])
   \<and> truthy (repo installed_plugin)
   \<and> path installed_plugin = Some ''/cache/repos/github.com/Shougo/dpp.vim''
   \<and> getSyncCommands example_env shallow_params installed_plugin =
        ([\<lparr>command = ''git'',
           args = [''-c'', ''credential.helper='', ''-c'', ''core.fsmonitor=false'',
                   ''fetch'']\<rparr>,
          \<lparr>command = ''git'', args = [''pull'', ''--depth=25'', ''--ff-only'']\<rparr>,
          \<lparr>command = ''git'',
           args = [''submodule'', ''update'', ''--init'', ''--recursive'']\<rparr>], [])
   \<and> getSyncCommands example_env default_params installed_plugin =
        ([\<lparr>command = ''git'',
           args = [''-c'', ''credential.helper='', ''-c'', ''core.fsmonitor=false'',
                   ''fetch'']\<rparr>,
          \<lparr>command = ''git'', args = [''remote'', ''set-head'', ''origin'', ''-a'']\<rparr>,
          \<lparr>command = ''git'', args = [''pull'', ''--ff'', ''--ff-only'']\<rparr>,
          \<lparr>command = ''git'',
           args = [''submodule'', ''update'', ''--init'', ''--recursive'']\<rparr>], [])"
proof -
  have n: "''/cache/repos/github.com/Shougo/dpp.vim'' \<noteq> []"
    and d: "isDirectory example_env ''/cache/repos/github.com/Shougo/dpp.vim''"
    by (simp_all add: example_defs)
  have r: "truthy (repo upstream_plugin)"
    and p: "path upstream_plugin = Some ''/cache/repos/github.com/Shougo/dpp.vim''"
    by (simp_all add: example_defs)
  have r': "truthy (repo installed_plugin)"
    and p': "path installed_plugin = Some ''/cache/repos/github.com/Shougo/dpp.vim''"
    by (simp_all add: example_defs)
  note first = update_plan_order [OF r p n d, of insecure_params]
  note second = update_plan_order [OF r' p' n d, of shallow_params]
  note third = update_plan_order [OF r' p' n d, of default_params]
  show ?thesis
    using r p d r' p' first second third
    by (simp add: example_defs)
qed

text \<open>
  C2, as the code has it: with a non-empty \<open>repo\<close> and \<open>path\<close>, when the path is not a
  directory \<open>getSyncCommands\<close> returns exactly one command, a \<open>clone --recursive\<close> behind
  the credential and TLS flags, in which \<open>--depth=<N>\<close> stands exactly when
  \<open>cloneDepth > 0\<close> and \<open>--branch <rev>\<close> follows it exactly when in addition a non-empty
  revision was requested; \<open><N>\<close> is \<open>cloneDepth\<close> as the language prints it: \<open>Infinity\<close>,
  the decimal digits of an integer up to \<open>2^53\<close>, and \<open>formatNumber\<close> of any other number.
  When the path is a directory, the only \<open>--depth\<close> flags in the emitted commands are
  those that the configured \<open>pullArgs\<close> or the remote's name bring along themselves.
  The last part says what the decimal digits are: digits only, at least one, no leading
  zero, and denoting the number.
\<close>

theorem sync_plan_depth:
  assumes "truthy (repo pl)" and "path pl = Some p" and "p \<noteq> []"
  shows "(\<not> isDirectory e p \<longrightarrow>
            getSyncCommands e ps pl =
              ([\<lparr>command = commandPath ps,
                 args = (if enableCredentialHelper ps then []
                         else [''-c'', ''credential.helper='', ''-c'',
                               ''core.fsmonitor=false'']) @
                        (if enableSSLVerify ps then [] else [''-c'', ''http.sslVerify=false'']) @
                        [''clone'', ''--recursive''] @
                        (if enablePartialClone ps then [''--filter=blob:none''] else []) @
                        (case cloneDepth ps of
                           NaN \<Rightarrow> []
                         | NegInfinity \<Rightarrow> []
                         | PosInfinity \<Rightarrow>
                             [''--depth=Infinity''] @
                             (case rev pl of
                                None \<Rightarrow> []
                              | Some v \<Rightarrow> if v = [] then [] else [''--branch'', v])
                         | Finite x \<Rightarrow>
                             if 0 < x
                             then [''--depth='' @
                                   (if x = of_int \<lfloor>x\<rfloor> \<and> x \<le> 2 ^ 53
                                    then decimal (nat \<lfloor>x\<rfloor>)
                                    else formatNumber e x)] @
                                  (case rev pl of
                                     None \<Rightarrow> []
                                   | Some v \<Rightarrow> if v = [] then [] else [''--branch'', v])
                             else []) @
                        [getGitUrl pl (defaultHubSite ps) (defaultProtocol ps), p]\<rparr>], []))
       \<and> (isDirectory e p \<longrightarrow>
            (\<forall>c\<in>set (fst (getSyncCommands e ps pl)). \<forall>a\<in>set (args c).
               is_depth_flag a \<longrightarrow>
                 a \<in> set (pullArgs ps)
                 \<or> a = (case protocolAttrs pl of
                          None \<Rightarrow> defaultRemote ps
                        | Some b \<Rightarrow>
                            (case gitRemote b of None \<Rightarrow> defaultRemote ps | Some g \<Rightarrow> g))))
       \<and> (\<forall>n. set (decimal n) \<subseteq> set ''0123456789'' \<and> decimal n \<noteq> []
              \<and> (0 < n \<longrightarrow> hd (decimal n) \<noteq> CHR ''0'') \<and> decimal_value (decimal n) = n)"
proof (intro conjI impI allI ballI)
  assume nd: "\<not> isDirectory e p"
  have sync: "getSyncCommands e ps pl =
      ([\<lparr>command = commandPath ps,
         args = cloneArgs e ps pl (getGitUrl pl (defaultHubSite ps) (defaultProtocol ps)) p\<rparr>],
       [])"
    using assms nd by (simp add: getSyncCommands_def getUrl_def truthy_def)
  show "getSyncCommands e ps pl =
              ([\<lparr>command = commandPath ps,
                 args = (if enableCredentialHelper ps then []
                         else [''-c'', ''credential.helper='', ''-c'',
                               ''core.fsmonitor=false'']) @
                        (if enableSSLVerify ps then [] else [''-c'', ''http.sslVerify=false'']) @
                        [''clone'', ''--recursive''] @
                        (if enablePartialClone ps then [''--filter=blob:none''] else []) @
                        (case cloneDepth ps of
                           NaN \<Rightarrow> []
                         | NegInfinity \<Rightarrow> []
                         | PosInfinity \<Rightarrow>
                             [''--depth=Infinity''] @
                             (case rev pl of
                                None \<Rightarrow> []
                              | Some v \<Rightarrow> if v = [] then [] else [''--branch'', v])
                         | Finite x \<Rightarrow>
                             if 0 < x
                             then [''--depth='' @
                                   (if x = of_int \<lfloor>x\<rfloor> \<and> x \<le> 2 ^ 53
                                    then decimal (nat \<lfloor>x\<rfloor>)
                                    else formatNumber e x)] @
                                  (case rev pl of
                                     None \<Rightarrow> []
                                   | Some v \<Rightarrow> if v = [] then [] else [''--branch'', v])
                             else []) @
                        [getGitUrl pl (defaultHubSite ps) (defaultProtocol ps), p]\<rparr>], [])"
    unfolding sync
    by (cases "cloneDepth ps")
       (auto simp: cloneArgs_def initArgs_def credentialHelper_def sslVerify_def Let_def
          truthy_number_def gt_zero_def numberToString_def split: option.splits)
next
  fix c a
  assume "isDirectory e p" and "c \<in> set (fst (getSyncCommands e ps pl))"
    and "a \<in> set (args c)" and "is_depth_flag a"
  then show "a \<in> set (pullArgs ps)
                 \<or> a = (case protocolAttrs pl of
                          None \<Rightarrow> defaultRemote ps
                        | Some b \<Rightarrow>
                            (case gitRemote b of None \<Rightarrow> defaultRemote ps | Some g \<Rightarrow> g))"
    using assms
    by (auto simp: getSyncCommands_def updateCommands_def truthy_def remoteArgs_def
        remoteName_def submoduleArgs_def initArgs_def credentialHelper_def sslVerify_def
        is_depth_flag_def startsWith_def split: if_splits)
next
  fix n show "set (decimal n) \<subseteq> set ''0123456789''" by (rule decimal_digits)
next
  fix n show "decimal n \<noteq> []" by (rule decimal_nonempty)
next
  fix n :: nat assume "0 < n" then show "hd (decimal n) \<noteq> CHR ''0''"
    by (rule decimal_no_leading_zero)
next
  fix n show "decimal_value (decimal n) = n" by (rule decimal_value_decimal)
qed

text \<open>With \<open>pullArgs\<close> set to \<open>pull --depth=25 --ff-only\<close> the update of an installed plugin
  does contain a \<open>--depth\<close> flag.\<close>

theorem sync_plan_depth_counterexample:
  "truthy (repo installed_plugin) \<and> truthy (path installed_plugin)
   \<and> isDirectory example_env ''/cache/repos/github.com/Shougo/dpp.vim''
   \<and> getSyncCommands example_env shallow_params installed_plugin =
        ([\<lparr>command = ''git'',
           args = [''-c'', ''credential.helper='', ''-c'', ''core.fsmonitor=false'',
                   ''fetch'']\<rparr>,
          \<lparr>command = ''git'', args = [''pull'', ''--depth=25'', ''--ff-only'']\<rparr>,
          \<lparr>command = ''git'',
           args = [''submodule'', ''update'', ''--init'', ''--recursive'']\<rparr>], [])
   \<and> is_depth_flag ''--depth=25''"
  by (simp add: example_defs getSyncCommands_def updateCommands_def initArgs_def
      credentialHelper_def sslVerify_def submoduleArgs_def is_depth_flag_def startsWith_def
      truthy_number_def le_zero_def)

theorem sync_plan_depth_witness:
  "truthy (repo new_plugin)
   \<and> path new_plugin = Some ''/cache/repos/github.com/Shougo/ddu.vim''
   \<and> ''/cache/repos/github.com/Shougo/ddu.vim'' \<noteq> []
   \<and> \<not> isDirectory example_env ''/cache/repos/github.com/Shougo/ddu.vim''
   \<and> getSyncCommands example_env shallow_params new_plugin =
        ([\<lparr>command = ''git'',
           args = [''-c'', ''credential.helper='', ''-c'', ''core.fsmonitor=false'',
                   ''clone'', ''--recursive'', ''--depth=25'', ''--branch'', ''v1.0'',
                   ''https://github.com/Shougo/ddu.vim.git'',
                   ''/cache/repos/github.com/Shougo/ddu.vim'']\<rparr>], [])
   \<and> getSyncCommands example_env (insecure_params\<lparr>cloneDepth := Finite (3 / 2)\<rparr>) new_plugin =
        ([\<lparr>command = ''git'',
           args = [''-c'', ''http.sslVerify=false'', ''clone'', ''--recursive'',
                   ''--filter=blob:none'', ''--depth=1.5'', ''--branch'', ''v1.0'',
                   ''https://github.com/Shougo/ddu.vim.git'',
                   ''/cache/repos/github.com/Shougo/ddu.vim'']\<rparr>], [])
   \<and> getSyncCommands example_env default_params new_plugin =
        ([\<lparr>command = ''git'',
           args = [''-c'', ''credential.helper='', ''-c'', ''core.fsmonitor=false'',
                   ''clone'', ''--recursive'',
                   ''https://github.com/Shougo/ddu.vim.git'',
                   ''/cache/repos/github.com/Shougo/ddu.vim'']\<rparr>], [])
   \<and> truthy (repo upstream_plugin)
   \<and> path upstream_plugin = Some ''/cache/repos/github.com/Shougo/dpp.vim''
   \<and> ''/cache/repos/github.com/Shougo/dpp.vim'' \<noteq> []
   \<and> isDirectory example_env ''/cache/repos/github.com/Shougo/dpp.vim''
   \<and> \<not> (\<exists>c\<in>set (fst (getSyncCommands example_env shallow_params upstream_plugin)).
          \<exists>a\<in>set (args c). is_depth_flag a \<and> a \<notin> set (pullArgs shallow_params)
             \<and> a \<noteq> ''upstream'')
   \<and> decimal 25 = ''25''
   \<and> decimal_value ''25'' = 25"
proof -
  have r: "truthy (repo new_plugin)"
    and p: "path new_plugin = Some ''/cache/repos/github.com/Shougo/ddu.vim''"
    and n: "''/cache/repos/github.com/Shougo/ddu.vim'' \<noteq> []"
    and d: "\<not> isDirectory example_env ''/cache/repos/github.com/Shougo/ddu.vim''"
    by (simp_all add: example_defs)
  have u: "getGitUrl new_plugin ''github.com'' ''https'' = ''https://github.com/Shougo/ddu.vim.git''"
    by (simp add: example_defs url_eval)
  have k: "decimal 25 = ''25''"
    by (simp add: decimal.simps digit_char_def)
  have f: "\<lfloor>3 / 2 :: real\<rfloor> = 1" by simp
  have first: "getSyncCommands example_env shallow_params new_plugin =
        ([\<lparr>command = ''git'',
           args = [''-c'', ''credential.helper='', ''-c'', ''core.fsmonitor=false'',
                   ''clone'', ''--recursive'', ''--depth=25'', ''--branch'', ''v1.0'',
                   ''https://github.com/Shougo/ddu.vim.git'',
                   ''/cache/repos/github.com/Shougo/ddu.vim'']\<rparr>], [])"
    using sync_plan_depth [OF r p n, of example_env shallow_params] d u k
    by (simp add: example_defs)
  have second: "getSyncCommands example_env (insecure_params\<lparr>cloneDepth := Finite (3 / 2)\<rparr>)
        new_plugin =
        ([\<lparr>command = ''git'',
           args = [''-c'', ''http.sslVerify=false'', ''clone'', ''--recursive'',
                   ''--filter=blob:none'', ''--depth=1.5'', ''--branch'', ''v1.0'',
                   ''https://github.com/Shougo/ddu.vim.git'',
                   ''/cache/repos/github.com/Shougo/ddu.vim'']\<rparr>], [])"
    using sync_plan_depth [OF r p n, of example_env "insecure_params\<lparr>cloneDepth := Finite (3 / 2)\<rparr>"]
      d u f
    by (simp add: example_defs)
  have third: "getSyncCommands example_env default_params new_plugin =
        ([\<lparr>command = ''git'',
           args = [''-c'', ''credential.helper='', ''-c'', ''core.fsmonitor=false'',
                   ''clone'', ''--recursive'',
                   ''https://github.com/Shougo/ddu.vim.git'',
                   ''/cache/repos/github.com/Shougo/ddu.vim'']\<rparr>], [])"
    using sync_plan_depth [OF r p n, of example_env default_params] d u
    by (simp add: example_defs)
  have r': "truthy (repo upstream_plugin)"
    and p': "path upstream_plugin = Some ''/cache/repos/github.com/Shougo/dpp.vim''"
    and n': "''/cache/repos/github.com/Shougo/dpp.vim'' \<noteq> []"
    and d': "isDirectory example_env ''/cache/repos/github.com/Shougo/dpp.vim''"
    by (simp_all add: example_defs)
  have a: "(case protocolAttrs upstream_plugin of
              None \<Rightarrow> defaultRemote shallow_params
            | Some b \<Rightarrow>
                (case gitRemote b of None \<Rightarrow> defaultRemote shallow_params | Some g \<Rightarrow> g))
           = ''upstream''"
    by (simp add: example_defs)
  have fourth: "\<not> (\<exists>c\<in>set (fst (getSyncCommands example_env shallow_params upstream_plugin)).
          \<exists>a\<in>set (args c). is_depth_flag a \<and> a \<notin> set (pullArgs shallow_params)
             \<and> a \<noteq> ''upstream'')"
    using sync_plan_depth [OF r' p' n', of example_env shallow_params] d' unfolding a by blast
  have v: "decimal_value ''25'' = 25"
    using sync_plan_depth [OF r p n, of example_env shallow_params] k by metis
  show ?thesis using r p d first second third r' p' d' fourth k v by simp
qed

section \<open>Identifiers and URLs\<close>

text \<open>The eight assertions of the test \<open>getGitUrl\<close> in git/main.ts.\<close>

theorem getGitUrl_tests:
  "getGitUrl (example_plugin ''Shougo/dpp.vim'') ''github.com'' ''https''
     = ''https://github.com/Shougo/dpp.vim.git''
   \<and> getGitUrl (example_plugin ''gitlab.com/user/repo'') ''github.com'' ''https''
     = ''https://gitlab.com/user/repo.git''
   \<and> getGitUrl (example_plugin ''https://gitlab.com/user/repo'') ''github.com'' ''https''
     = ''https://gitlab.com/user/repo.git''
   \<and> getGitUrl (example_plugin ''foo://gitlab.com/user/repo'') ''github.com'' ''https'' = []
   \<and> getGitUrl (example_plugin ''https://github.com/Shougo/dpp.vim.git'') ''github.com''
       ''https''
     = ''https://github.com/Shougo/dpp.vim.git''
   \<and> getGitUrl (example_plugin ''Shougo/dpp.vim'') ''github.com'' ''ssh''
     = ''git@github.com:Shougo/dpp.vim.git''
   \<and> getGitUrl (example_plugin ''~whynothugo/lsp_lines.nvim'') ''git.sr.ht'' ''https''
     = ''https://git.sr.ht/~whynothugo/lsp_lines.nvim''
   \<and> getGitUrl (example_plugin ''~whynothugo/lsp_lines.nvim'') ''git.sr.ht'' ''ssh''
     = ''git@git.sr.ht:~whynothugo/lsp_lines.nvim''"
  by (simp add: example_defs url_eval)

text \<open>
  C1, as the code has it: let the identifier be \<open>user/name\<close> or \<open>host/user/name\<close>, with
  a non-empty user and host without slashes and a non-empty name without line
  terminators (and, in the first form, without slashes), matching neither the SSH nor
  the explicit-scheme grammar. Then \<open>getUrl\<close> of git/main.ts with default protocol
  \<open>https\<close> returns \<open>https://<host>/<user>/<name>\<close> and with \<open>ssh\<close>
  \<open>git@<host>:<user>/<name>\<close>, where the host is the identifier's own when it has one
  and \<open>defaultHubSite\<close> otherwise, and \<open>.git\<close> is appended unless that host is
  \<open>git.sr.ht\<close> or the URL already ends in \<open>.git\<close>. \<open>getUrl\<close> of git.ts, for an
  identifier that matches neither of its two grammars, returns
  \<open>https://<defaultHubSite>/<identifier>\<close> or \<open>git@<defaultHubSite>:<identifier>\<close> and
  never appends \<open>.git\<close>.
\<close>

theorem shorthand_url:
  assumes "repo pl = Some r"
    and "r = (case ho of None \<Rightarrow> [] | Some h \<Rightarrow> h @ ''/'') @ u @ ''/'' @ n"
    and "u \<noteq> []" and "CHR ''/'' \<notin> set u" and "n \<noteq> []" and "\<forall>c\<in>set n. dot c"
    and "case ho of None \<Rightarrow> CHR ''/'' \<notin> set n | Some h \<Rightarrow> h \<noteq> [] \<and> CHR ''/'' \<notin> set h"
    and "sshMatch r = None" and "protocolMatch r = None"
    and "H = (case ho of None \<Rightarrow> defaultHubSite ps | Some h \<Rightarrow> h)"
  shows "(defaultProtocol ps = ''https'' \<longrightarrow>
            getUrl ps pl = (suffix_policy H (''https://'' @ H @ ''/'' @ u @ ''/'' @ n), []))
       \<and> (defaultProtocol ps = ''ssh'' \<longrightarrow>
            getUrl ps pl = (suffix_policy H (''git@'' @ H @ '':'' @ u @ ''/'' @ n), []))
       \<and> (git_ts_sshMatch r = None \<and> git_ts_protocolMatch r = None \<longrightarrow>
            (defaultProtocol ps = ''https'' \<longrightarrow>
               git_ts_getUrl ps pl = (''https://'' @ defaultHubSite ps @ ''/'' @ r, []))
          \<and> (defaultProtocol ps = ''ssh'' \<longrightarrow>
               git_ts_getUrl ps pl = (''git@'' @ defaultHubSite ps @ '':'' @ r, [])))"
proof -
  have u: "\<forall>x\<in>set u. not_slash x" using assms(4) by (auto simp: not_slash_def)
  have hm: "hostMatch r = Some (ho, u, n)"
  proof (cases ho)
    case None
    then have "\<forall>x\<in>set n. not_slash x" using assms(7) by (auto simp: not_slash_def)
    then show ?thesis
      using hostMatch_two [OF assms(3) u assms(5,6)] assms(2) None by simp
  next
    case (Some h)
    then have "h \<noteq> []" and "\<forall>x\<in>set h. not_slash x"
      using assms(7) by (auto simp: not_slash_def)
    then show ?thesis
      using hostMatch_three [OF _ _ assms(3) u assms(5,6), of h] assms(2) Some by simp
  qed
  have slash: "r \<noteq> [] \<and> CHR ''/'' \<in> set r" using assms(2) by auto
  have Hh: "(case ho of None \<Rightarrow> defaultHubSite ps | Some h \<Rightarrow> if h = [] then defaultHubSite ps else h) = H"
    using assms(7,10) by (cases ho) auto
  have parse: "parseIdentifier r (defaultHubSite ps) (defaultProtocol ps) =
      \<lparr>protocol = defaultProtocol ps, host = H, user = u, name = n\<rparr>"
    using assms(8,9) hm Hh by (simp add: parseIdentifier_def)
  have main: "getUrl ps pl =
      (buildUrl \<lparr>protocol = defaultProtocol ps, host = H, user = u, name = n\<rparr>, [])"
    using assms(1) slash parse by (simp add: getUrl_def getGitUrl_def)
  have old: "git_ts_sshMatch r = None \<and> git_ts_protocolMatch r = None \<longrightarrow>
      git_ts_parse r (defaultHubSite ps) (defaultProtocol ps) =
        (defaultProtocol ps, defaultHubSite ps, r)"
    by (simp add: git_ts_parse_def)
  show ?thesis
    using main old assms(1,3,5) slash
    by (auto simp: buildUrl_def suffix_policy_def git_ts_getUrl_def)
qed

text \<open>The host of \<open>gitlab.com/user/repo\<close> replaces the default hub site (a test of
  git/main.ts), git.ts appends no \<open>.git\<close>, and a name is cut at its first line
  terminator.\<close>

theorem shorthand_url_counterexample:
  "sshMatch ''gitlab.com/user/repo'' = None
   \<and> protocolMatch ''gitlab.com/user/repo'' = None
   \<and> getUrl default_params (example_plugin ''gitlab.com/user/repo'')
        = (''https://gitlab.com/user/repo.git'', [])
   \<and> \<not> startsWith ''https://gitlab.com/user/repo.git''
          (''https://'' @ defaultHubSite default_params @ ''/'')
   \<and> git_ts_sshMatch ''Shougo/dpp.vim'' = None
   \<and> git_ts_protocolMatch ''Shougo/dpp.vim'' = None
   \<and> git_ts_getUrl default_params (example_plugin ''Shougo/dpp.vim'')
        = (''https://github.com/Shougo/dpp.vim'', [])
   \<and> \<not> endsWith ''https://github.com/Shougo/dpp.vim'' ''.git''
   \<and> sshMatch (''user/na'' @ [CHR 0x0A] @ ''me'') = None
   \<and> protocolMatch (''user/na'' @ [CHR 0x0A] @ ''me'') = None
   \<and> getUrl default_params (example_plugin (''user/na'' @ [CHR 0x0A] @ ''me''))
        = (''https://github.com/user/na.git'', [])"
  by (simp add: example_defs url_eval git_ts_url_eval)

theorem shorthand_url_witness:
  "repo (example_plugin ''Shougo/dpp.vim'') = Some ''Shougo/dpp.vim''
   \<and> sshMatch ''Shougo/dpp.vim'' = None
   \<and> protocolMatch ''Shougo/dpp.vim'' = None
   \<and> git_ts_sshMatch ''Shougo/dpp.vim'' = None
   \<and> git_ts_protocolMatch ''Shougo/dpp.vim'' = None
   \<and> defaultProtocol default_params = ''https''
   \<and> getUrl default_params (example_plugin ''Shougo/dpp.vim'')
        = (''https://github.com/Shougo/dpp.vim.git'', [])
   \<and> git_ts_getUrl default_params (example_plugin ''Shougo/dpp.vim'')
        = (''https://github.com/Shougo/dpp.vim'', [])
   \<and> repo (example_plugin ''git.sr.ht/~whynothugo/lsp_lines.nvim'')
        = Some ''git.sr.ht/~whynothugo/lsp_lines.nvim''
   \<and> sshMatch ''git.sr.ht/~whynothugo/lsp_lines.nvim'' = None
   \<and> protocolMatch ''git.sr.ht/~whynothugo/lsp_lines.nvim'' = None
   \<and> defaultProtocol (default_params\<lparr>defaultProtocol := ''ssh''\<rparr>) = ''ssh''
   \<and> getUrl (default_params\<lparr>defaultProtocol := ''ssh''\<rparr>)
         (example_plugin ''git.sr.ht/~whynothugo/lsp_lines.nvim'')
        = (''git@git.sr.ht:~whynothugo/lsp_lines.nvim'', [])"
proof -
  have r: "repo (example_plugin ''Shougo/dpp.vim'') = Some ''Shougo/dpp.vim''"
    by (simp add: example_defs)
  have shape: "''Shougo/dpp.vim'' = (case None of None \<Rightarrow> [] | Some h \<Rightarrow> h @ ''/'') @ ''Shougo'' @ ''/'' @ ''dpp.vim''"
    by simp
  have u: "''Shougo'' \<noteq> []" "CHR ''/'' \<notin> set ''Shougo''" by simp_all
  have n: "''dpp.vim'' \<noteq> []" "\<forall>c\<in>set ''dpp.vim''. dot c" by (simp_all add: dot_def)
  have c: "case None of None \<Rightarrow> CHR ''/'' \<notin> set ''dpp.vim'' | Some h \<Rightarrow> h \<noteq> [] \<and> CHR ''/'' \<notin> set h"
    by simp
  have s: "sshMatch ''Shougo/dpp.vim'' = None" and p: "protocolMatch ''Shougo/dpp.vim'' = None"
    by (simp_all add: url_eval)
  have gs: "git_ts_sshMatch ''Shougo/dpp.vim'' = None"
    and gp: "git_ts_protocolMatch ''Shougo/dpp.vim'' = None"
    by (simp_all add: git_ts_url_eval)
  have H: "''github.com'' = (case None of None \<Rightarrow> defaultHubSite default_params | Some h \<Rightarrow> h)"
    by (simp add: example_defs)
  have d: "defaultProtocol default_params = ''https''" by (simp add: example_defs)
  note first = shorthand_url [OF r shape u n c s p H]
  have r': "repo (example_plugin ''git.sr.ht/~whynothugo/lsp_lines.nvim'')
        = Some ''git.sr.ht/~whynothugo/lsp_lines.nvim''"
    by (simp add: example_defs)
  have shape': "''git.sr.ht/~whynothugo/lsp_lines.nvim'' =
      (case Some ''git.sr.ht'' of None \<Rightarrow> [] | Some h \<Rightarrow> h @ ''/'') @ ''~whynothugo'' @ ''/'' @ ''lsp_lines.nvim''"
    by simp
  have u': "''~whynothugo'' \<noteq> []" "CHR ''/'' \<notin> set ''~whynothugo''" by simp_all
  have n': "''lsp_lines.nvim'' \<noteq> []" "\<forall>c\<in>set ''lsp_lines.nvim''. dot c"
    by (simp_all add: dot_def)
  have c': "case Some ''git.sr.ht'' of None \<Rightarrow> CHR ''/'' \<notin> set ''lsp_lines.nvim''
            | Some h \<Rightarrow> h \<noteq> [] \<and> CHR ''/'' \<notin> set h"
    by simp
  have s': "sshMatch ''git.sr.ht/~whynothugo/lsp_lines.nvim'' = None"
    and p': "protocolMatch ''git.sr.ht/~whynothugo/lsp_lines.nvim'' = None"
    by (simp_all add: url_eval)
  have H': "''git.sr.ht'' = (case Some ''git.sr.ht'' of
       None \<Rightarrow> defaultHubSite (default_params\<lparr>defaultProtocol := ''ssh''\<rparr>) | Some h \<Rightarrow> h)"
    by simp
  have d': "defaultProtocol (default_params\<lparr>defaultProtocol := ''ssh''\<rparr>) = ''ssh''" by simp
  note second = shorthand_url [OF r' shape' u' n' c' s' p' H']
  show ?thesis
    using r s p gs gp d first r' s' p' d' second
    by (simp add: suffix_policy_def endsWith_def example_defs)
qed

text \<open>
  C7, as the code has it: whenever \<open>getGitUrl\<close> returns a non-empty URL, the parsed user
  and name are both non-empty, the user contains no slash, and the protocol is exactly
  \<open>https\<close> or \<open>ssh\<close>. (The name is whatever \<open>.+\<close> matched and may contain slashes.)
\<close>

theorem valid_match_components:
  assumes "repo pl = Some r" and "getGitUrl pl hubSite proto \<noteq> []"
  shows "user (parseIdentifier r hubSite proto) \<noteq> []
       \<and> CHR ''/'' \<notin> set (user (parseIdentifier r hubSite proto))
       \<and> name (parseIdentifier r hubSite proto) \<noteq> []
       \<and> (protocol (parseIdentifier r hubSite proto) = ''https''
          \<or> protocol (parseIdentifier r hubSite proto) = ''ssh'')"
proof -
  have b: "buildUrl (parseIdentifier r hubSite proto) \<noteq> []"
    using assms by (simp add: getGitUrl_def split: if_splits)
  have "CHR ''/'' \<notin> set (user (parseIdentifier r hubSite proto))"
    using parse_user_no_slash [of r hubSite proto] by (auto simp: not_slash_def)
  then show ?thesis using buildUrl_nonempty [OF b] by simp
qed

text \<open>An identifier with a subgroup: a URL is built, and the parsed name has a slash.\<close>

theorem valid_match_components_counterexample:
  "getGitUrl (example_plugin ''gitlab.com/group/subgroup/project'') ''github.com'' ''https''
     = ''https://gitlab.com/group/subgroup/project.git''
   \<and> name (parseIdentifier ''gitlab.com/group/subgroup/project'' ''github.com'' ''https'')
     = ''subgroup/project''
   \<and> CHR ''/'' \<in> set ''subgroup/project''"
  by (simp add: example_defs url_eval)

theorem valid_match_components_witness:
  "repo (example_plugin ''Shougo/dpp.vim'') = Some ''Shougo/dpp.vim''
   \<and> getGitUrl (example_plugin ''Shougo/dpp.vim'') ''github.com'' ''https'' \<noteq> []
   \<and> user (parseIdentifier ''Shougo/dpp.vim'' ''github.com'' ''https'') \<noteq> []
   \<and> CHR ''/'' \<notin> set (user (parseIdentifier ''Shougo/dpp.vim'' ''github.com'' ''https''))
   \<and> name (parseIdentifier ''Shougo/dpp.vim'' ''github.com'' ''https'') \<noteq> []
   \<and> protocol (parseIdentifier ''Shougo/dpp.vim'' ''github.com'' ''https'') = ''https''"
proof -
  have r: "repo (example_plugin ''Shougo/dpp.vim'') = Some ''Shougo/dpp.vim''"
    by (simp add: example_defs)
  have u: "getGitUrl (example_plugin ''Shougo/dpp.vim'') ''github.com'' ''https'' \<noteq> []"
    by (simp add: example_defs url_eval)
  have p: "protocol (parseIdentifier ''Shougo/dpp.vim'' ''github.com'' ''https'') = ''https''"
    by (simp add: url_eval)
  show ?thesis
    using r u p valid_match_components [OF r u] by simp
qed

text \<open>
  C5, as the code has it: when the resolved protocol is neither \<open>https\<close> nor \<open>ssh\<close>, URL
  resolution returns the empty string in both variants. Only \<open>getUrl\<close> of git.ts
  also reports it, for an identifier that contains a slash, by one call of the error
  sink with the protocol in the message; \<open>getUrl\<close> of git/main.ts reports nothing.
\<close>

theorem invalid_protocol_empty:
  assumes "repo pl = Some r"
  shows \<open>(protocol (parseIdentifier r (defaultHubSite ps) (defaultProtocol ps)) \<noteq> ''https''
          \<and> protocol (parseIdentifier r (defaultHubSite ps) (defaultProtocol ps)) \<noteq> ''ssh''
          \<longrightarrow> getUrl ps pl = ([], []))
       \<and> (\<forall>p h n. CHR ''/'' \<in> set r
             \<and> git_ts_parse r (defaultHubSite ps) (defaultProtocol ps) = (p, h, n)
             \<and> p \<noteq> ''https'' \<and> p \<noteq> ''ssh''
          \<longrightarrow> git_ts_getUrl ps pl = ([], [''Invalid git protocol: "'' @ p @ ''"'']))\<close>
  using assms
  by (auto simp: getUrl_def getGitUrl_def buildUrl_def git_ts_getUrl_def)

text \<open>The identifier of the test in git/main.ts: empty URL, and no message. git.ts is
  silent too when the identifier has no slash.\<close>

theorem invalid_protocol_empty_counterexample:
  "protocol (parseIdentifier ''foo://gitlab.com/user/repo'' ''github.com'' ''https'') = ''foo''
   \<and> getUrl default_params (example_plugin ''foo://gitlab.com/user/repo'') = ([], [])
   \<and> git_ts_parse ''dpp.vim'' ''github.com'' ''foo'' = (''foo'', ''github.com'', ''dpp.vim'')
   \<and> git_ts_getUrl (default_params\<lparr>defaultProtocol := ''foo''\<rparr>) (example_plugin ''dpp.vim'')
        = ([], [])"
  by (simp add: example_defs url_eval git_ts_url_eval)

theorem invalid_protocol_empty_witness:
  \<open>repo (example_plugin ''foo://gitlab.com/user/repo'') = Some ''foo://gitlab.com/user/repo''
   \<and> protocol (parseIdentifier ''foo://gitlab.com/user/repo'' (defaultHubSite default_params)
        (defaultProtocol default_params)) = ''foo''
   \<and> getUrl default_params (example_plugin ''foo://gitlab.com/user/repo'') = ([], [])
   \<and> git_ts_parse ''foo://gitlab.com/user/repo'' (defaultHubSite default_params)
        (defaultProtocol default_params) = (''foo'', ''gitlab.com'', ''user/repo'')
   \<and> git_ts_getUrl default_params (example_plugin ''foo://gitlab.com/user/repo'')
        = ([], [''Invalid git protocol: "foo"''])\<close>
proof -
  have r: "repo (example_plugin ''foo://gitlab.com/user/repo'') = Some ''foo://gitlab.com/user/repo''"
    by (simp add: example_defs)
  have p: "protocol (parseIdentifier ''foo://gitlab.com/user/repo'' (defaultHubSite default_params)
        (defaultProtocol default_params)) = ''foo''"
    by (simp add: example_defs url_eval)
  have g: "git_ts_parse ''foo://gitlab.com/user/repo'' (defaultHubSite default_params)
        (defaultProtocol default_params) = (''foo'', ''gitlab.com'', ''user/repo'')"
    by (simp add: example_defs git_ts_url_eval)
  show ?thesis
    using r p g invalid_protocol_empty [OF r, of default_params] by simp
qed

text \<open>
  C8, as the code has it: when the identifier of a plugin yields a non-empty URL and the
  resolved host is stable (not empty; under \<open>https\<close> without a slash; under \<open>ssh\<close> not
  beginning with a colon and without a slash behind its first colon), building the URL
  of that URL under the same configuration yields it again; in particular no second
  \<open>.git\<close> is appended.
\<close>

theorem url_building_idempotent:
  assumes "repo pl = Some r" and "getGitUrl pl hubSite proto = u" and "u \<noteq> []"
    and "stable_host (protocol (parseIdentifier r hubSite proto))
           (host (parseIdentifier r hubSite proto))"
  shows "getGitUrl (pl\<lparr>repo := Some u\<rparr>) hubSite proto = u"
proof -
  define p where "p = parseIdentifier r hubSite proto"
  have bu: "buildUrl p = u"
    using assms(1-3) by (simp add: getGitUrl_def p_def split: if_splits)
  then have ne: "buildUrl p \<noteq> []" using assms(3) by simp
  have v: "user p \<noteq> []" "protocol p = ''https'' \<or> protocol p = ''ssh''"
    using buildUrl_nonempty [OF ne] by simp_all
  have us: "\<forall>x\<in>set (user p). not_slash x" unfolding p_def by (rule parse_user_no_slash)
  have nd: "\<forall>x\<in>set (name p). dot x" unfolding p_def by (rule parse_name_no_terminator)
  obtain t where t: "t \<noteq> []" "\<forall>x\<in>set t. dot x"
    and shape: "u = (if protocol p = ''ssh'' then ''git@'' @ host p @ '':'' @ user p @ ''/'' @ t
                     else ''https://'' @ host p @ ''/'' @ user p @ ''/'' @ t)"
    and suf: "host p = ''git.sr.ht'' \<or> endsWith u ''.git''"
    using buildUrl_shape [OF ne nd] bu by metis
  have slash: "CHR ''/'' \<in> set u" using shape by (auto split: if_splits)
  have again: "getGitUrl (pl\<lparr>repo := Some u\<rparr>) hubSite proto =
      buildUrl (parseIdentifier u hubSite proto)"
    using assms(3) slash by (simp add: getGitUrl_def)
  show ?thesis
  proof (cases "protocol p = ''ssh''")
    case True
    then have st: "takeWhile not_colon (host p) \<noteq> []"
        "CHR ''/'' \<notin> set (dropWhile not_colon (host p))"
      using assms(4) by (simp_all add: stable_host_def p_def)
    have ueq: "u = ''git@'' @ host p @ '':'' @ user p @ ''/'' @ t" using shape True by simp
    obtain h' u' where m: "sshMatch u = Some (h', u', t)" and u': "u' \<noteq> []"
      and eq: "h' @ '':'' @ u' = host p @ '':'' @ user p"
      and same: "CHR '':'' \<notin> set (host p) \<longrightarrow> h' = host p"
      using sshMatch_built [OF st v(1) us t] ueq by auto
    have parse: "parseIdentifier u hubSite proto =
        \<lparr>protocol = ''ssh'', host = h', user = u', name = t\<rparr>"
      using m by (simp add: parseIdentifier_def)
    have base: "''git@'' @ h' @ '':'' @ u' @ ''/'' @ t = u"
      using eq ueq by (metis append_assoc)
    have "h' = ''git.sr.ht'' \<or> endsWith u ''.git''"
    proof (cases "host p = ''git.sr.ht''")
      case True
      then have "CHR '':'' \<notin> set (host p)" by simp
      then show ?thesis using same True by simp
    next
      case False
      then show ?thesis using suf by simp
    qed
    then have "buildUrl \<lparr>protocol = ''ssh'', host = h', user = u', name = t\<rparr> = u"
      using u' t(1) base by (auto simp: buildUrl_def Let_def)
    then show ?thesis using again parse by simp
  next
    case False
    then have https: "protocol p = ''https''" using v(2) by simp
    have st: "host p \<noteq> []" "\<forall>x\<in>set (host p). not_slash x"
      using assms(4) False by (auto simp: stable_host_def p_def not_slash_def)
    have ueq: "u = ''https://'' @ host p @ ''/'' @ user p @ ''/'' @ t" using shape False by simp
    have m: "sshMatch u = None" "protocolMatch u = Some (''https'', host p, user p, t)"
      using protocolMatch_built [OF st v(1) us t] ueq by simp_all
    have parse: "parseIdentifier u hubSite proto =
        \<lparr>protocol = ''https'', host = host p, user = user p, name = t\<rparr>"
      using m by (simp add: parseIdentifier_def)
    have "buildUrl \<lparr>protocol = ''https'', host = host p, user = user p, name = t\<rparr> = u"
      using v(1) t(1) ueq suf by (auto simp: buildUrl_def Let_def)
    then show ?thesis using again parse by simp
  qed
qed

text \<open>A host that begins with a colon: the URL built for it is not parsed as an SSH
  identifier again.\<close>

theorem url_building_idempotent_counterexample:
  "getGitUrl (example_plugin ''ssh://:22/user/repo'') ''github.com'' ''https''
     = ''git@:22:user/repo.git''
   \<and> getGitUrl (example_plugin ''git@:22:user/repo.git'') ''github.com'' ''https''
     = ''https://github.com/git@:22:user/repo.git''
   \<and> ''https://github.com/git@:22:user/repo.git'' \<noteq> ''git@:22:user/repo.git''"
  by (simp add: example_defs url_eval)

theorem url_building_idempotent_witness:
  "repo (example_plugin ''Shougo/dpp.vim'') = Some ''Shougo/dpp.vim''
   \<and> getGitUrl (example_plugin ''Shougo/dpp.vim'') ''github.com'' ''https''
        = ''https://github.com/Shougo/dpp.vim.git''
   \<and> ''https://github.com/Shougo/dpp.vim.git'' \<noteq> []
   \<and> stable_host (protocol (parseIdentifier ''Shougo/dpp.vim'' ''github.com'' ''https''))
        (host (parseIdentifier ''Shougo/dpp.vim'' ''github.com'' ''https''))
   \<and> getGitUrl ((example_plugin ''Shougo/dpp.vim'')
        \<lparr>repo := Some ''https://github.com/Shougo/dpp.vim.git''\<rparr>) ''github.com'' ''https''
        = ''https://github.com/Shougo/dpp.vim.git''"
proof -
  have r: "repo (example_plugin ''Shougo/dpp.vim'') = Some ''Shougo/dpp.vim''"
    by (simp add: example_defs)
  have g: "getGitUrl (example_plugin ''Shougo/dpp.vim'') ''github.com'' ''https''
        = ''https://github.com/Shougo/dpp.vim.git''"
    by (simp add: example_defs url_eval)
  have n: "''https://github.com/Shougo/dpp.vim.git'' \<noteq> []" by simp
  have s: "stable_host (protocol (parseIdentifier ''Shougo/dpp.vim'' ''github.com'' ''https''))
        (host (parseIdentifier ''Shougo/dpp.vim'' ''github.com'' ''https''))"
    by (simp add: stable_host_def url_eval)
  show ?thesis
    using r g s url_building_idempotent [OF r g n s] by simp
qed

section \<open>Local directories\<close>

text \<open>
  C6, as the code has it: for a plugin whose non-empty \<open>repo\<close> is not a raw or archive URL,
  is an absolute path or begins with \<open>~\<close>, that the caller has not flagged local, and
  whose expanded path is a directory, \<open>detect\<close> returns a partial record with \<open>local\<close>
  set and the expanded path. The record of git.ts has \<open>frozen\<close> set as well, the one of
  git/main.ts has not.
\<close>

theorem detect_local_directory:
  assumes "repo pl = Some r" and "r \<noteq> []" and "\<not> rawMatch r"
    and "isAbsolute e r \<or> startsWith r ''~''"
    and "local pl \<noteq> Some True" and "isDirectory e (expand e r)"
  shows "detect e ps pl =
           (Some (no_plugin\<lparr>local := Some True, path := Some (expand e r)\<rparr>), [])
       \<and> git_ts_detect e ps pl =
           (Some (no_plugin\<lparr>frozen := Some True, local := Some True,
                            path := Some (expand e r)\<rparr>), [])"
  using assms by (simp add: detect_def git_ts_detect_def)

text \<open>In git/main.ts the record of a local directory has no \<open>frozen\<close>; and a directory
  whose absolute path looks like an archive is taken for a raw repository in both
  variants, so \<open>detect\<close> returns nothing for it.\<close>

theorem detect_local_directory_counterexample:
  "isAbsolute example_env ''/home/me/plugin''
   \<and> isDirectory example_env (expand example_env ''/home/me/plugin'')
   \<and> detect example_env default_params (example_plugin ''/home/me/plugin'') =
        (Some (no_plugin\<lparr>local := Some True, path := Some ''/home/me/plugin''\<rparr>), [])
   \<and> frozen (no_plugin\<lparr>local := Some True, path := Some ''/home/me/plugin''\<rparr>) = None
   \<and> isAbsolute example_env ''/opt/archive/v1.zip''
   \<and> isDirectory example_env (expand example_env ''/opt/archive/v1.zip'')
   \<and> detect example_env default_params (example_plugin ''/opt/archive/v1.zip'') = (None, [])
   \<and> git_ts_detect example_env default_params (example_plugin ''/opt/archive/v1.zip'')
        = (None, [])"
  by (simp add: example_defs detect_def git_ts_detect_def raw_eval startsWith_def)

theorem detect_local_directory_witness:
  "repo (example_plugin ''/home/me/plugin'') = Some ''/home/me/plugin''
   \<and> ''/home/me/plugin'' \<noteq> []
   \<and> \<not> rawMatch ''/home/me/plugin''
   \<and> isAbsolute example_env ''/home/me/plugin''
   \<and> local (example_plugin ''/home/me/plugin'') \<noteq> Some True
   \<and> isDirectory example_env (expand example_env ''/home/me/plugin'')
   \<and> detect example_env default_params (example_plugin ''/home/me/plugin'') =
        (Some (no_plugin\<lparr>local := Some True, path := Some ''/home/me/plugin''\<rparr>), [])
   \<and> git_ts_detect example_env default_params (example_plugin ''/home/me/plugin'') =
        (Some (no_plugin\<lparr>frozen := Some True, local := Some True,
                         path := Some ''/home/me/plugin''\<rparr>), [])"
proof -
  have r: "repo (example_plugin ''/home/me/plugin'') = Some ''/home/me/plugin''"
    and n: "''/home/me/plugin'' \<noteq> []"
    and l: "local (example_plugin ''/home/me/plugin'') \<noteq> Some True"
    by (simp_all add: example_defs)
  have m: "\<not> rawMatch ''/home/me/plugin''"
    by (simp add: raw_eval)
  have a: "isAbsolute example_env ''/home/me/plugin''"
    and d: "isDirectory example_env (expand example_env ''/home/me/plugin'')"
    by (simp_all add: example_defs startsWith_def)
  from a have a': "isAbsolute example_env ''/home/me/plugin'' \<or> startsWith ''/home/me/plugin'' ''~''"
    by simp
  have e: "expand example_env ''/home/me/plugin'' = ''/home/me/plugin''"
    by (simp add: example_defs)
  show ?thesis
    using r l m a d detect_local_directory [OF r n m a' l d, of default_params] e by simp
qed

end
